theory Spec2Isabelle
  imports Complex_Main
begin

section \<open>Natural-source EM simulation: forward fields and sensitivities\<close>

text \<open>
  A shallow embedding of \<^verbatim>\<open>SimPEG/electromagnetics/natural_source/simulation.py\<close>.
  Arrays are lists over the real or complex numbers (exact arithmetic in place of IEEE
  doubles), Python exceptions are values of the type \<open>error\<close>, and every function that
  can raise returns \<open>error + 'a\<close> with \<open>Inl\<close> carrying the exception.
\<close>

subsection \<open>Exceptions and arrays\<close>

datatype error =
    AttributeError
  | IndexError
  | KeyError
  | TypeError
  | ValueError
  | ZeroDivisionError
  | SolverError
  | Exception string

type_synonym rvec = "real list"
type_synonym cvec = "complex list"

text \<open>Sequencing of computations that can raise: the first exception ends the rest.\<close>

definition bindE :: "error + 'a \<Rightarrow> ('a \<Rightarrow> error + 'b) \<Rightarrow> error + 'b" where
  "bindE r f = (case r of Inl e \<Rightarrow> Inl e | Inr x \<Rightarrow> f x)"

fun mapE :: "('a \<Rightarrow> error + 'b) \<Rightarrow> 'a list \<Rightarrow> error + 'b list" where
  "mapE f [] = Inr []"
| "mapE f (x # xs) = bindE (f x) (\<lambda>y. bindE (mapE f xs) (\<lambda>ys. Inr (y # ys)))"

text \<open>
  The arrays the simulation passes around have one of two shapes: \<open>(n,)\<close>, a vector, and
  \<open>(n, 2)\<close>, one column per polarization, kept as its \<open>n\<close> rows. A column array of shape
  \<open>(n, 1)\<close> is kept as a vector.
\<close>

datatype ndarray = Vec cvec | Arr2 "(complex \<times> complex) list"

text \<open>\<^verbatim>\<open>mkvc\<close> flattens in column-major order.\<close>

fun mkvc :: "ndarray \<Rightarrow> cvec" where
  "mkvc (Vec v) = v"
| "mkvc (Arr2 rows) = map fst rows @ map snd rows"

fun nd_scale :: "complex \<Rightarrow> ndarray \<Rightarrow> ndarray" where
  "nd_scale c (Vec v) = Vec (map (\<lambda>z. c * z) v)"
| "nd_scale c (Arr2 rows) = Arr2 (map (\<lambda>(a, b). (c * a, c * b)) rows)"

fun nd_neg :: "ndarray \<Rightarrow> ndarray" where
  "nd_neg (Vec v) = Vec (map uminus v)"
| "nd_neg (Arr2 rows) = Arr2 (map (\<lambda>(a, b). (- a, - b)) rows)"

text \<open>
  Addition of two arrays. The operands are required to have the same shape; numpy's
  broadcasting of axes of size one is not modelled, and operands of different shapes are
  reported as \<^verbatim>\<open>ValueError\<close>.
\<close>

fun nd_add :: "ndarray \<Rightarrow> ndarray \<Rightarrow> error + ndarray" where
  "nd_add (Vec a) (Vec b) =
     (if length a = length b then Inr (Vec (map2 (+) a b)) else Inl ValueError)"
| "nd_add (Arr2 r) (Arr2 s) =
     (if length r = length s
      then Inr (Arr2 (map2 (\<lambda>(a, b) (c, d). (a + c, b + d)) r s))
      else Inl ValueError)"
| "nd_add (Vec a) (Arr2 s) = Inl ValueError"
| "nd_add (Arr2 r) (Vec b) = Inl ValueError"

definition vec_add :: "rvec \<Rightarrow> rvec \<Rightarrow> error + rvec" where
  "vec_add a b = (if length a = length b then Inr (map2 (+) a b) else Inl ValueError)"

text \<open>\<^verbatim>\<open>np.hstack\<close> of two columns: they must have the same number of rows.\<close>

definition hstack2 :: "cvec \<Rightarrow> cvec \<Rightarrow> error + ndarray" where
  "hstack2 a b = (if length a = length b then Inr (Arr2 (zip a b)) else Inl ValueError)"

subsection \<open>Sparse matrices\<close>

text \<open>
  A scipy sparse matrix is its shape and its entries. \<^verbatim>\<open>.T\<close> is the plain transpose:
  no entry is conjugated.
\<close>

datatype cmat = CMat (nrow: nat) (ncol: nat) (entry: "nat \<Rightarrow> nat \<Rightarrow> complex")

definition mat_T :: "cmat \<Rightarrow> cmat" where
  "mat_T A = CMat (ncol A) (nrow A) (\<lambda>i j. entry A j i)"

definition row_dot :: "cmat \<Rightarrow> cvec \<Rightarrow> nat \<Rightarrow> complex" where
  "row_dot A v i = sum_list (map (\<lambda>j. entry A i j * v ! j) [0..<ncol A])"

definition mat_vec :: "cmat \<Rightarrow> cvec \<Rightarrow> error + cvec" where
  "mat_vec A v =
     (if length v = ncol A then Inr (map (row_dot A v) [0..<nrow A]) else Inl ValueError)"

definition mat_mul :: "cmat \<Rightarrow> cmat \<Rightarrow> error + cmat" where
  "mat_mul A B =
     (if ncol A = nrow B
      then Inr (CMat (nrow A) (ncol B)
                 (\<lambda>i j. sum_list (map (\<lambda>k. entry A i k * entry B k j) [0..<ncol A])))
      else Inl ValueError)"

definition mat_add :: "cmat \<Rightarrow> cmat \<Rightarrow> error + cmat" where
  "mat_add A B =
     (if nrow A = nrow B \<and> ncol A = ncol B
      then Inr (CMat (nrow A) (ncol A) (\<lambda>i j. entry A i j + entry B i j))
      else Inl ValueError)"

definition mat_scale :: "complex \<Rightarrow> cmat \<Rightarrow> cmat" where
  "mat_scale c A = CMat (nrow A) (ncol A) (\<lambda>i j. c * entry A i j)"

text \<open>
  Modelled from the spec: \<^verbatim>\<open>omega\<close> of the package's utilities, which is not part of
  the sources at hand; the spec gives the angular frequency as \<open>2 \<pi> f\<close>.
\<close>

definition omega :: "real \<Rightarrow> real" where
  "omega freq = 2 * pi * freq"

subsection \<open>The linear-solve backend\<close>

text \<open>
  A factorization is an object that solves with the system it was built from and that
  can be released. In exact arithmetic, solving is the product with the inverse matrix,
  a square matrix of the system's size; \<open>s_clean\<close> tells whether \<^verbatim>\<open>clean()\<close> returns
  (\<open>True\<close>) or raises.
\<close>

record solver =
  s_size :: nat
  s_inv :: "nat \<Rightarrow> nat \<Rightarrow> complex"
  s_clean :: bool

definition solver_mat :: "solver \<Rightarrow> cmat" where
  "solver_mat h = CMat (s_size h) (s_size h) (s_inv h)"

text \<open>\<^verbatim>\<open>Ainv * x\<close>: one solve per column.\<close>

fun solver_mul :: "solver \<Rightarrow> ndarray \<Rightarrow> error + ndarray" where
  "solver_mul h (Vec v) = bindE (mat_vec (solver_mat h) v) (\<lambda>y. Inr (Vec y))"
| "solver_mul h (Arr2 rows) =
     bindE (mat_vec (solver_mat h) (map fst rows)) (\<lambda>a.
     bindE (mat_vec (solver_mat h) (map snd rows)) (\<lambda>b.
     Inr (Arr2 (zip a b))))"

subsection \<open>Survey, sources and receivers\<close>

text \<open>
  The fields object maps a source to its solution: an \<open>(n, 2)\<close> array with the two
  polarizations \<^verbatim>\<open>e_pxSolution\<close> and \<^verbatim>\<open>e_pySolution\<close> for the 3-D simulation, a vector
  \<^verbatim>\<open>e_1dSolution\<close> for the 1-D simulation. Sources are told apart by \<open>src_id\<close>.
\<close>

type_synonym fields = "nat \<Rightarrow> ndarray option"

text \<open>
  A receiver is a collaborator. \<^verbatim>\<open>rx.evalDeriv(src, mesh, f, v)\<close> projects a field
  perturbation to data and is \<open>evalDeriv rx f v\<close>; with \<^verbatim>\<open>adjoint=True\<close> it maps data
  to an array over the field space and is \<open>evalDeriv_adjoint rx f v\<close>. \<open>rx_nD\<close> is the
  number of data of the receiver.
\<close>

record receiver =
  component :: string
  rx_nD :: nat
  evalDeriv :: "fields \<Rightarrow> cvec \<Rightarrow> rvec"
  evalDeriv_adjoint :: "fields \<Rightarrow> rvec \<Rightarrow> ndarray"

text \<open>
  A source is a collaborator. Its methods take the simulation, of which they read the
  current model: \<^verbatim>\<open>Src.S_e(self)\<close> is \<open>S_e src m\<close>, \<^verbatim>\<open>Src.S_eDeriv(self, v, adjoint)\<close> is
  \<open>S_eDeriv src m v adjoint\<close>, and likewise \<^verbatim>\<open>S_eDeriv_m\<close>.
\<close>

record source =
  src_id :: nat
  receiver_list :: "receiver list"
  S_e :: "rvec \<Rightarrow> ndarray"
  S_eDeriv :: "rvec \<Rightarrow> cvec \<Rightarrow> bool \<Rightarrow> ndarray"
  S_eDeriv_m :: "rvec \<Rightarrow> cvec \<Rightarrow> bool \<Rightarrow> ndarray"

text \<open>
  Modelled from the spec: the survey class, which is not part of the sources at hand.
  The spec has it expose the ordered frequencies, the ordered sources of each frequency
  and the total number of data; the data vector is laid out frequency by frequency, then
  source by source, then receiver by receiver.
\<close>

record survey =
  frequencies :: "real list"
  get_sources_by_frequency :: "real \<Rightarrow> source list"

definition num_frequencies :: "survey \<Rightarrow> nat" where
  "num_frequencies sv = length (frequencies sv)"

definition survey_receivers :: "survey \<Rightarrow> receiver list" where
  "survey_receivers sv =
     concat (map (\<lambda>freq. concat (map receiver_list (get_sources_by_frequency sv freq)))
       (frequencies sv))"

definition nD :: "survey \<Rightarrow> nat" where
  "nD sv = sum_list (map rx_nD (survey_receivers sv))"

text \<open>\<^verbatim>\<open>get_sources_by_frequency(freq)[0]\<close>\<close>

definition first_source :: "survey \<Rightarrow> real \<Rightarrow> error + source" where
  "first_source sv freq =
     (case get_sources_by_frequency sv freq of [] \<Rightarrow> Inl IndexError | src # _ \<Rightarrow> Inr src)"

subsection \<open>The simulation\<close>

datatype variant = Simulation1DPrimarySecondary | Simulation3DPrimarySecondary

text \<open>
  What a simulation is built from and never changes: its class, the mesh with its
  operators, the mass matrices and their derivatives as functions of the model, the
  survey and the solver class. \<open>MeSigmaDeriv_mat m u\<close> is the matrix of the derivative of
  \<open>MeSigma u\<close> with respect to the model, \<open>MfMui\<close> and \<open>MeSigma\<close> are the properties of the
  base simulation class; \<open>nodalGrad\<close>, \<open>getEdgeInnerProduct_mui\<close> (the edge inner
  product of \<open>1/\<mu>\<^sub>0\<close>), \<open>getFaceInnerProduct\<close> and \<open>getFaceInnerProductDeriv\<close> are the
  mesh's, \<open>sigma\<close> and \<open>sigmaDeriv\<close> the conductivity of a model and its derivative.
\<close>

record simulation =
  variant :: variant
  nE :: nat
  edgeCurl :: cmat
  MfMui :: cmat
  MeSigma :: "rvec \<Rightarrow> cmat"
  MeSigmaDeriv_mat :: "rvec \<Rightarrow> cvec \<Rightarrow> cmat"
  nodalGrad :: cmat
  getEdgeInnerProduct_mui :: cmat
  getFaceInnerProduct :: "rvec \<Rightarrow> cmat"
  getFaceInnerProductDeriv :: "rvec \<Rightarrow> cvec \<Rightarrow> cmat"
  sigma :: "rvec \<Rightarrow> rvec"
  sigmaDeriv :: "rvec \<Rightarrow> cmat"
  survey :: survey
  Solver :: "cmat \<Rightarrow> error + solver"

text \<open>
  What a simulation changes while it runs: the current model, the list \<^verbatim>\<open>self.Ainv\<close>
  of factorizations (\<open>None\<close> while the attribute has not been assigned; a slot is \<open>None\<close>
  while it holds Python's \<^verbatim>\<open>None\<close>), and, for the sake of stating what happened, the
  trace of the calls into the backend: \<open>Factorize nf\<close> for a call of the solver class for
  the frequency of index \<open>nf\<close>, \<open>Clean i\<close> for a \<^verbatim>\<open>clean()\<close> of slot \<open>i\<close> that returned.
\<close>

datatype event = Factorize nat | Clean nat

record sim_state =
  model :: "rvec option"
  Ainv :: "solver option list option"
  trace :: "event list"

text \<open>
  A simulation that has no model yet cannot assemble a system; the base class, which is
  not part of the sources at hand, raises, and the exception is taken to be
  \<^verbatim>\<open>AttributeError\<close>.
\<close>

definition current_model :: "sim_state \<Rightarrow> error + rvec" where
  "current_model st = (case model st of None \<Rightarrow> Inl AttributeError | Some m \<Rightarrow> Inr m)"

text \<open>\<^verbatim>\<open>u['e_pxSolution']\<close>, \<^verbatim>\<open>u['e_pySolution']\<close> and \<^verbatim>\<open>u['e_1dSolution']\<close>\<close>

fun e_pxSolution :: "ndarray \<Rightarrow> error + cvec" where
  "e_pxSolution (Arr2 rows) = Inr (map fst rows)"
| "e_pxSolution (Vec v) = Inl KeyError"

fun e_pySolution :: "ndarray \<Rightarrow> error + cvec" where
  "e_pySolution (Arr2 rows) = Inr (map snd rows)"
| "e_pySolution (Vec v) = Inl KeyError"

fun e_1dSolution :: "ndarray \<Rightarrow> error + cvec" where
  "e_1dSolution (Vec v) = Inr v"
| "e_1dSolution (Arr2 rows) = Inl KeyError"

subsection \<open>System assembly of the 1-D simulation\<close>

text \<open>
  \<^verbatim>\<open>
  def MfSigmaDeriv(self, u):
      self._MfSigmaDeriv = self.mesh.getFaceInnerProductDeriv(self.sigma)(u) * self.sigmaDeriv
      return self._MfSigmaDeriv

  def getA(self, freq):
      MeMui = self.MeMui
      MfSigma = self.MfSigma
      C = self.mesh.nodalGrad
      A = C.T*MeMui*C + 1j*omega(freq)*MfSigma
      return A

  def getADeriv(self, freq, u, v, adjoint=False):
      u_src = u['e_1dSolution']
      dMfSigma_dm = self.MfSigmaDeriv(u_src)
      if adjoint:
          return 1j * omega(freq) * mkvc(dMfSigma_dm.T * v,)
      return 1j * omega(freq) * mkvc(dMfSigma_dm * v,)

  def getRHS(self, freq):
      Src = self.survey.get_sources_by_frequency(freq)[0]
      S_e = mkvc(Src.S_e(self)[:, 1], 2)
      return -1j * omega(freq) * S_e

  def getRHSDeriv(self, freq, v, adjoint=False):
      Src = self.survey.get_sources_by_frequency(freq)[0]
      S_eDeriv = mkvc(Src.S_eDeriv_m(self, v, adjoint),)
      return -1j * omega(freq) * S_eDeriv
  \<close>
\<close>

definition MfSigma :: "simulation \<Rightarrow> rvec \<Rightarrow> cmat" where
  "MfSigma sim m = getFaceInnerProduct sim (sigma sim m)"

definition MfSigmaDeriv :: "simulation \<Rightarrow> rvec \<Rightarrow> cvec \<Rightarrow> error + cmat" where
  "MfSigmaDeriv sim m u = mat_mul (getFaceInnerProductDeriv sim (sigma sim m) u) (sigmaDeriv sim m)"

definition getA_1D :: "simulation \<Rightarrow> rvec \<Rightarrow> real \<Rightarrow> error + cmat" where
  "getA_1D sim m freq =
     bindE (mat_mul (mat_T (nodalGrad sim)) (getEdgeInnerProduct_mui sim)) (\<lambda>CtM.
     bindE (mat_mul CtM (nodalGrad sim)) (\<lambda>K.
     mat_add K (mat_scale (\<i> * complex_of_real (omega freq)) (MfSigma sim m))))"

definition getADeriv_1D :: "simulation \<Rightarrow> rvec \<Rightarrow> real \<Rightarrow> ndarray \<Rightarrow> cvec \<Rightarrow> bool \<Rightarrow> error + ndarray" where
  "getADeriv_1D sim m freq u v adjoint =
     bindE (e_1dSolution u) (\<lambda>u_src.
     bindE (MfSigmaDeriv sim m u_src) (\<lambda>dMfSigma_dm.
     if adjoint
     then bindE (mat_vec (mat_T dMfSigma_dm) v) (\<lambda>y.
            Inr (nd_scale (\<i> * complex_of_real (omega freq)) (Vec y)))
     else bindE (mat_vec dMfSigma_dm v) (\<lambda>y.
            Inr (nd_scale (\<i> * complex_of_real (omega freq)) (Vec y)))))"

text \<open>\<^verbatim>\<open>X[:, 1]\<close> needs two axes.\<close>

fun column1 :: "ndarray \<Rightarrow> error + cvec" where
  "column1 (Arr2 rows) = Inr (map snd rows)"
| "column1 (Vec v) = Inl IndexError"

definition getRHS_1D :: "simulation \<Rightarrow> rvec \<Rightarrow> real \<Rightarrow> error + ndarray" where
  "getRHS_1D sim m freq =
     bindE (first_source (survey sim) freq) (\<lambda>Src.
     bindE (column1 (S_e Src m)) (\<lambda>S_e.
     Inr (nd_scale (- \<i> * complex_of_real (omega freq)) (Vec S_e))))"

definition getRHSDeriv_1D :: "simulation \<Rightarrow> rvec \<Rightarrow> real \<Rightarrow> cvec \<Rightarrow> bool \<Rightarrow> error + ndarray" where
  "getRHSDeriv_1D sim m freq v adjoint =
     bindE (first_source (survey sim) freq) (\<lambda>Src.
     Inr (nd_scale (- \<i> * complex_of_real (omega freq)) (Vec (mkvc (S_eDeriv_m Src m v adjoint)))))"

subsection \<open>System assembly of the 3-D simulation\<close>

text \<open>
  \<^verbatim>\<open>
  def getA(self, freq):
      Mfmui = self.MfMui
      Mesig = self.MeSigma
      C = self.mesh.edgeCurl
      return C.T*Mfmui*C + 1j*omega(freq)*Mesig

  def getADeriv(self, freq, u, v, adjoint=False):
      sol0, sol1 = self._solutionType
      if adjoint:
          dMe_dsigV = (
              self.MeSigmaDeriv(u[sol0], v[:self.mesh.nE], adjoint) +
              self.MeSigmaDeriv(u[sol1], v[self.mesh.nE:], adjoint)
          )
      else:
          dMe_dsigV = np.hstack(
              (
                  mkvc(self.MeSigmaDeriv(u[sol0], v, adjoint), 2),
                  mkvc(self.MeSigmaDeriv(u[sol1], v, adjoint), 2)
              )
          )
      return 1j * omega(freq) * dMe_dsigV

  def getRHS(self, freq):
      Src = self.survey.get_sources_by_frequency(freq)[0]
      S_e = Src.S_e(self)
      return -1j * omega(freq) * S_e

  def getRHSDeriv(self, freq, v, adjoint=False):
      Src = self.survey.get_sources_by_frequency(freq)[0]
      S_eDeriv = Src.S_eDeriv(self, v, adjoint)
      dRHS_dm = -1j * omega(freq) * S_eDeriv
      return dRHS_dm
  \<close>
  Modelled from the spec: the method \<^verbatim>\<open>MeSigmaDeriv(u, v, adjoint)\<close> of the base
  simulation class, which is not part of the sources at hand. The spec has the
  derivative of the mass matrix applied as a matrix-vector product or, in adjoint mode,
  as a vector-matrix product, the matrix never being formed densely.
\<close>

definition MeSigmaDeriv :: "simulation \<Rightarrow> rvec \<Rightarrow> cvec \<Rightarrow> cvec \<Rightarrow> bool \<Rightarrow> error + cvec" where
  "MeSigmaDeriv sim m u v adjoint =
     (if adjoint then mat_vec (mat_T (MeSigmaDeriv_mat sim m u)) v
      else mat_vec (MeSigmaDeriv_mat sim m u) v)"

definition getA_3D :: "simulation \<Rightarrow> rvec \<Rightarrow> real \<Rightarrow> error + cmat" where
  "getA_3D sim m freq =
     bindE (mat_mul (mat_T (edgeCurl sim)) (MfMui sim)) (\<lambda>CtM.
     bindE (mat_mul CtM (edgeCurl sim)) (\<lambda>K.
     mat_add K (mat_scale (\<i> * complex_of_real (omega freq)) (MeSigma sim m))))"

definition getADeriv_3D :: "simulation \<Rightarrow> rvec \<Rightarrow> real \<Rightarrow> ndarray \<Rightarrow> cvec \<Rightarrow> bool \<Rightarrow> error + ndarray" where
  "getADeriv_3D sim m freq u v adjoint =
     (if adjoint
      then bindE (e_pxSolution u) (\<lambda>u0.
           bindE (MeSigmaDeriv sim m u0 (take (nE sim) v) adjoint) (\<lambda>a.
           bindE (e_pySolution u) (\<lambda>u1.
           bindE (MeSigmaDeriv sim m u1 (drop (nE sim) v) adjoint) (\<lambda>b.
           bindE (nd_add (Vec a) (Vec b)) (\<lambda>dMe_dsigV.
           Inr (nd_scale (\<i> * complex_of_real (omega freq)) dMe_dsigV))))))
      else bindE (e_pxSolution u) (\<lambda>u0.
           bindE (MeSigmaDeriv sim m u0 v adjoint) (\<lambda>a.
           bindE (e_pySolution u) (\<lambda>u1.
           bindE (MeSigmaDeriv sim m u1 v adjoint) (\<lambda>b.
           bindE (hstack2 a b) (\<lambda>dMe_dsigV.
           Inr (nd_scale (\<i> * complex_of_real (omega freq)) dMe_dsigV)))))))"

definition getRHS_3D :: "simulation \<Rightarrow> rvec \<Rightarrow> real \<Rightarrow> error + ndarray" where
  "getRHS_3D sim m freq =
     bindE (first_source (survey sim) freq) (\<lambda>Src.
     Inr (nd_scale (- \<i> * complex_of_real (omega freq)) (S_e Src m)))"

definition getRHSDeriv_3D :: "simulation \<Rightarrow> rvec \<Rightarrow> real \<Rightarrow> cvec \<Rightarrow> bool \<Rightarrow> error + ndarray" where
  "getRHSDeriv_3D sim m freq v adjoint =
     bindE (first_source (survey sim) freq) (\<lambda>Src.
     Inr (nd_scale (- \<i> * complex_of_real (omega freq)) (S_eDeriv Src m v adjoint)))"

text \<open>The methods as the base class calls them on \<^verbatim>\<open>self\<close>: the class decides.\<close>

definition getADeriv :: "simulation \<Rightarrow> rvec \<Rightarrow> real \<Rightarrow> ndarray \<Rightarrow> cvec \<Rightarrow> bool \<Rightarrow> error + ndarray" where
  "getADeriv sim m freq u v adjoint =
     (case variant sim of
        Simulation1DPrimarySecondary \<Rightarrow> getADeriv_1D sim m freq u v adjoint
      | Simulation3DPrimarySecondary \<Rightarrow> getADeriv_3D sim m freq u v adjoint)"

definition getRHSDeriv :: "simulation \<Rightarrow> rvec \<Rightarrow> real \<Rightarrow> cvec \<Rightarrow> bool \<Rightarrow> error + ndarray" where
  "getRHSDeriv sim m freq v adjoint =
     (case variant sim of
        Simulation1DPrimarySecondary \<Rightarrow> getRHSDeriv_1D sim m freq v adjoint
      | Simulation3DPrimarySecondary \<Rightarrow> getRHSDeriv_3D sim m freq v adjoint)"

subsection \<open>The forward solve\<close>

text \<open>
  \<^verbatim>\<open>
  def fields(self, m=None):                        # Simulation1DPrimarySecondary
      if m is not None:
          self.model = m
      F = self.fieldsPair(self)
      for freq in self.survey.frequencies:
          A = self.getA(freq)
          rhs  = self.getRHS(freq)
          Ainv = self.Solver(A, **self.solver_opts)
          e_s = Ainv * rhs
          Src = self.survey.get_sources_by_frequency(freq)[0]
          F[Src, 'e_1dSolution'] = e_s
      return F
  \<close>
  The factorization of the 1-D simulation is a local variable: nothing is stored in
  \<^verbatim>\<open>self.Ainv\<close>. The index \<open>nf\<close> of the frequency only labels the event of the trace.
\<close>

definition set_model :: "rvec option \<Rightarrow> sim_state \<Rightarrow> sim_state" where
  "set_model m st = (case m of None \<Rightarrow> st | Some m' \<Rightarrow> st\<lparr>model := Some m'\<rparr>)"

definition log_event :: "event \<Rightarrow> sim_state \<Rightarrow> sim_state" where
  "log_event ev st = st\<lparr>trace := trace st @ [ev]\<rparr>"

definition fields_1D_step :: "simulation \<Rightarrow> nat \<Rightarrow> real \<Rightarrow> fields \<Rightarrow> sim_state
    \<Rightarrow> (error + fields) \<times> sim_state" where
  "fields_1D_step sim nf freq F st =
     (case bindE (current_model st) (\<lambda>m.
           bindE (getA_1D sim m freq) (\<lambda>A.
           bindE (getRHS_1D sim m freq) (\<lambda>rhs. Inr (A, rhs)))) of
        Inl e \<Rightarrow> (Inl e, st)
      | Inr (A, rhs) \<Rightarrow>
          (let st1 = log_event (Factorize nf) st in
           case Solver sim A of
             Inl e \<Rightarrow> (Inl e, st1)
           | Inr Ainv_local \<Rightarrow>
               (bindE (solver_mul Ainv_local rhs) (\<lambda>e_s.
                bindE (first_source (survey sim) freq) (\<lambda>Src.
                Inr (F(src_id Src := Some e_s)))), st1)))"

fun fields_1D_loop :: "simulation \<Rightarrow> (nat \<times> real) list \<Rightarrow> fields \<Rightarrow> sim_state
    \<Rightarrow> (error + fields) \<times> sim_state" where
  "fields_1D_loop sim [] F st = (Inr F, st)"
| "fields_1D_loop sim ((nf, freq) # rest) F st =
     (case fields_1D_step sim nf freq F st of
        (Inl e, st') \<Rightarrow> (Inl e, st')
      | (Inr F', st') \<Rightarrow> fields_1D_loop sim rest F' st')"

definition fields_1D :: "simulation \<Rightarrow> sim_state \<Rightarrow> rvec option \<Rightarrow> (error + fields) \<times> sim_state" where
  "fields_1D sim st m =
     fields_1D_loop sim (enumerate 0 (frequencies (survey sim))) (\<lambda>_. None) (set_model m st)"

text \<open>
  \<^verbatim>\<open>
  @dask.delayed(pure=True)
  def fields(self, m=None):                        # Simulation3DPrimarySecondary
      mkl_set_num_threads(self.n_cpu)
      if m is not None:
          self.model = m
      F = self.fieldsPair(self)
      try:
          if self.Ainv[0] is not None:
              for i in range(self.survey.num_frequencies):
                  self.Ainv[i].clean()
      except:
          pass
      self.Ainv = [None for i in range(self.survey.num_frequencies)]
      for nf, freq in enumerate(self.survey.frequencies):
          A = self.getA(freq)
          rhs = self.getRHS(freq)
          self.Ainv[nf] = self.Solver(A, **self.solver_opts)
          e_s = self.Ainv[nf] * rhs
          Src = self.survey.get_sources_by_frequency(freq)[0]
          F[Src, 'e_pxSolution'] = e_s[:, 0]
          F[Src, 'e_pySolution'] = e_s[:, 1]
      return F
  \<close>
  The function is wrapped by \<^verbatim>\<open>dask.delayed\<close>: it runs when the caller asks for the value
  with \<^verbatim>\<open>.compute()\<close>. The embedding is of the function that runs.

  The release loop stops at the first exception, whatever it is (a slot beyond the end
  of the list, a slot that holds \<^verbatim>\<open>None\<close>, a \<^verbatim>\<open>clean()\<close> that raises), and the
  \<^verbatim>\<open>except: pass\<close> discards it.
\<close>

fun clean_loop :: "solver option list \<Rightarrow> nat list \<Rightarrow> sim_state \<Rightarrow> sim_state" where
  "clean_loop slots [] st = st"
| "clean_loop slots (i # rest) st =
     (if i < length slots
      then (case slots ! i of
              None \<Rightarrow> st
            | Some h \<Rightarrow> if s_clean h then clean_loop slots rest (log_event (Clean i) st) else st)
      else st)"

definition release_Ainv :: "simulation \<Rightarrow> sim_state \<Rightarrow> sim_state" where
  "release_Ainv sim st =
     (case Ainv st of
        None \<Rightarrow> st
      | Some [] \<Rightarrow> st
      | Some (None # _) \<Rightarrow> st
      | Some (Some h0 # slots) \<Rightarrow>
          clean_loop (Some h0 # slots) [0..<num_frequencies (survey sim)] st)"

definition store_Ainv :: "nat \<Rightarrow> solver \<Rightarrow> sim_state \<Rightarrow> sim_state" where
  "store_Ainv nf h st = st\<lparr>Ainv := map_option (\<lambda>slots. slots[nf := Some h]) (Ainv st)\<rparr>"

text \<open>\<^verbatim>\<open>e_s[:, 0]\<close> and \<^verbatim>\<open>e_s[:, 1]\<close> need two axes.\<close>

fun both_columns :: "ndarray \<Rightarrow> error + ndarray" where
  "both_columns (Arr2 rows) = Inr (Arr2 (zip (map fst rows) (map snd rows)))"
| "both_columns (Vec v) = Inl IndexError"

definition fields_3D_step :: "simulation \<Rightarrow> nat \<Rightarrow> real \<Rightarrow> fields \<Rightarrow> sim_state
    \<Rightarrow> (error + fields) \<times> sim_state" where
  "fields_3D_step sim nf freq F st =
     (case bindE (current_model st) (\<lambda>m.
           bindE (getA_3D sim m freq) (\<lambda>A.
           bindE (getRHS_3D sim m freq) (\<lambda>rhs. Inr (A, rhs)))) of
        Inl e \<Rightarrow> (Inl e, st)
      | Inr (A, rhs) \<Rightarrow>
          (let st1 = log_event (Factorize nf) st in
           case Solver sim A of
             Inl e \<Rightarrow> (Inl e, st1)
           | Inr h \<Rightarrow>
               (let st2 = store_Ainv nf h st1 in
                (bindE (solver_mul h rhs) (\<lambda>e_s.
                 bindE (first_source (survey sim) freq) (\<lambda>Src.
                 bindE (both_columns e_s) (\<lambda>sol.
                 Inr (F(src_id Src := Some sol))))), st2))))"

fun fields_3D_loop :: "simulation \<Rightarrow> (nat \<times> real) list \<Rightarrow> fields \<Rightarrow> sim_state
    \<Rightarrow> (error + fields) \<times> sim_state" where
  "fields_3D_loop sim [] F st = (Inr F, st)"
| "fields_3D_loop sim ((nf, freq) # rest) F st =
     (case fields_3D_step sim nf freq F st of
        (Inl e, st') \<Rightarrow> (Inl e, st')
      | (Inr F', st') \<Rightarrow> fields_3D_loop sim rest F' st')"

definition fields_3D :: "simulation \<Rightarrow> sim_state \<Rightarrow> rvec option \<Rightarrow> (error + fields) \<times> sim_state" where
  "fields_3D sim st m =
     (let st1 = set_model m st;
          st2 = release_Ainv sim st1;
          st3 = st2\<lparr>Ainv := Some (replicate (num_frequencies (survey sim)) None)\<rparr>
      in fields_3D_loop sim (enumerate 0 (frequencies (survey sim))) (\<lambda>_. None) st3)"

definition fields :: "simulation \<Rightarrow> sim_state \<Rightarrow> rvec option \<Rightarrow> (error + fields) \<times> sim_state" where
  "fields sim st m =
     (case variant sim of
        Simulation1DPrimarySecondary \<Rightarrow> fields_1D sim st m
      | Simulation3DPrimarySecondary \<Rightarrow> fields_3D sim st m)"

text \<open>
  \<^verbatim>\<open>self.fields(m).compute()\<close>, as \<^verbatim>\<open>Jvec\<close> and \<^verbatim>\<open>Jtvec\<close> write it. The 3-D
  \<^verbatim>\<open>fields\<close> is wrapped by \<^verbatim>\<open>dask.delayed\<close>: the call returns a delayed value, and
  \<^verbatim>\<open>.compute()\<close> runs the function and gives what it returns or raises. The 1-D
  \<^verbatim>\<open>fields\<close> is a plain method: it runs at the call, and \<^verbatim>\<open>.compute\<close> is then looked up
  on the fields object it returned.

  Modelled from the spec: the fields class, which is not part of the sources at hand.
  The spec has a fields object be a mapping from source and field identifier to a complex
  vector and gives it no other operation: the object has no attribute \<^verbatim>\<open>compute\<close>, and
  the lookup raises \<^verbatim>\<open>AttributeError\<close>.
\<close>

definition fields_compute :: "simulation \<Rightarrow> sim_state \<Rightarrow> rvec option
    \<Rightarrow> (error + fields) \<times> sim_state" where
  "fields_compute sim st m =
     (case variant sim of
        Simulation3DPrimarySecondary \<Rightarrow> fields_3D sim st m
      | Simulation1DPrimarySecondary \<Rightarrow>
          (case fields_1D sim st m of
             (Inl e, st1) \<Rightarrow> (Inl e, st1)
           | (Inr F, st1) \<Rightarrow> (Inl AttributeError, st1)))"

subsection \<open>Sensitivity times a vector\<close>

text \<open>
  \<^verbatim>\<open>
  def Jvec(self, m, v, f=None):
      if f is None:
          f = self.fields(m).compute()
      self.model = m
      Jv = []
      number_of_frequencies = len(self.survey.frequencies)
      number_of_components = len(self.survey.get_sources_by_frequency(self.survey.frequencies[0])[0].receiver_list)
      n_dim = number_of_frequencies * number_of_components
      m_dim = int(self.survey.nD / (number_of_components * number_of_frequencies))
      for nF, freq in enumerate(self.survey.frequencies):
          for src in self.survey.get_sources_by_frequency(freq):
              u_src = f[src, :]
              dA_dm_v = self.getADeriv(freq, u_src, v)
              dRHS_dm_v = self.getRHSDeriv(freq, v)
              du_dm_v = self.Ainv[nF] * (-dA_dm_v + dRHS_dm_v)
              for rx in src.receiver_list:
                  Jv.append(da.from_delayed(dask.delayed(rx.evalDeriv)(src, self.mesh, f, mkvc(du_dm_v)), shape=(m_dim,), dtype=float))
      return da.concatenate(Jv, axis=0).compute()
  \<close>
  \<open>m_dim\<close> is the shape the blocks are declared with; the blocks themselves are what
  the receivers return. In \<^verbatim>\<open>self.Ainv[nF] * (...)\<close> the slot is read first, then the
  sum is formed, then the product.
\<close>

definition fields_get :: "fields \<Rightarrow> source \<Rightarrow> error + ndarray" where
  "fields_get f src = (case f (src_id src) of None \<Rightarrow> Inl KeyError | Some u \<Rightarrow> Inr u)"

definition get_Ainv_slot :: "sim_state \<Rightarrow> nat \<Rightarrow> error + solver option" where
  "get_Ainv_slot st nF =
     (case Ainv st of
        None \<Rightarrow> Inl AttributeError
      | Some slots \<Rightarrow> if nF < length slots then Inr (slots ! nF) else Inl IndexError)"

definition slot_mul :: "solver option \<Rightarrow> ndarray \<Rightarrow> error + ndarray" where
  "slot_mul slot x = (case slot of None \<Rightarrow> Inl TypeError | Some h \<Rightarrow> solver_mul h x)"

definition Jvec_m_dim :: "simulation \<Rightarrow> error + nat" where
  "Jvec_m_dim sim =
     (case frequencies (survey sim) of
        [] \<Rightarrow> Inl IndexError
      | freq0 # _ \<Rightarrow>
          bindE (first_source (survey sim) freq0) (\<lambda>src0.
          let number_of_frequencies = length (frequencies (survey sim));
              number_of_components = length (receiver_list src0)
          in if number_of_components * number_of_frequencies = 0 then Inl ZeroDivisionError
             else Inr (nD (survey sim) div (number_of_components * number_of_frequencies))))"

definition Jvec_du_dm_v :: "simulation \<Rightarrow> sim_state \<Rightarrow> rvec \<Rightarrow> rvec \<Rightarrow> fields \<Rightarrow> nat \<Rightarrow> real
    \<Rightarrow> source \<Rightarrow> error + ndarray" where
  "Jvec_du_dm_v sim st m v f nF freq src =
     bindE (fields_get f src) (\<lambda>u_src.
     bindE (getADeriv sim m freq u_src (map complex_of_real v) False) (\<lambda>dA_dm_v.
     bindE (getRHSDeriv sim m freq (map complex_of_real v) False) (\<lambda>dRHS_dm_v.
     bindE (get_Ainv_slot st nF) (\<lambda>slot.
     bindE (nd_add (nd_neg dA_dm_v) dRHS_dm_v) (\<lambda>rhs.
     slot_mul slot rhs)))))"

definition Jvec_src :: "simulation \<Rightarrow> sim_state \<Rightarrow> rvec \<Rightarrow> rvec \<Rightarrow> fields \<Rightarrow> nat \<Rightarrow> real
    \<Rightarrow> source \<Rightarrow> error + rvec list" where
  "Jvec_src sim st m v f nF freq src =
     bindE (Jvec_du_dm_v sim st m v f nF freq src) (\<lambda>du_dm_v.
     Inr (map (\<lambda>rx. evalDeriv rx f (mkvc du_dm_v)) (receiver_list src)))"

definition Jvec_freq :: "simulation \<Rightarrow> sim_state \<Rightarrow> rvec \<Rightarrow> rvec \<Rightarrow> fields \<Rightarrow> nat \<times> real
    \<Rightarrow> error + rvec list" where
  "Jvec_freq sim st m v f nfreq =
     bindE (mapE (Jvec_src sim st m v f (fst nfreq) (snd nfreq))
              (get_sources_by_frequency (survey sim) (snd nfreq))) (\<lambda>blocks.
     Inr (concat blocks))"

definition Jvec_run :: "simulation \<Rightarrow> sim_state \<Rightarrow> rvec \<Rightarrow> rvec \<Rightarrow> fields \<Rightarrow> error + rvec" where
  "Jvec_run sim st m v f =
     bindE (Jvec_m_dim sim) (\<lambda>m_dim.
     bindE (mapE (Jvec_freq sim st m v f) (enumerate 0 (frequencies (survey sim)))) (\<lambda>blocks.
     let Jv = concat blocks in
     if Jv = [] then Inl ValueError else Inr (concat Jv)))"

definition Jvec :: "simulation \<Rightarrow> sim_state \<Rightarrow> rvec \<Rightarrow> rvec \<Rightarrow> fields option
    \<Rightarrow> (error + rvec) \<times> sim_state" where
  "Jvec sim st m v f =
     (case (case f of None \<Rightarrow> fields_compute sim st (Some m) | Some f' \<Rightarrow> (Inr f', st)) of
        (Inl e, st1) \<Rightarrow> (Inl e, st1)
      | (Inr f', st1) \<Rightarrow>
          (let st2 = st1\<lparr>model := Some m\<rparr> in (Jvec_run sim st2 m v f', st2)))"

subsection \<open>Transposed sensitivity times a vector\<close>

text \<open>
  \<^verbatim>\<open>
  def Jtvec(self, m, v, f=None):
      if f is None:
          f = self.fields(m).compute()
      self.model = m
      if not isinstance(v, Data):
          v = Data(self.survey, v)
      Jtv = da.zeros(m.size)
      for nF, freq in enumerate(self.survey.frequencies):
          for src in self.survey.get_sources_by_frequency(freq):
              u_src = f[src, :]
              PTv = np.zeros((self.mesh.nE, 2), dtype=complex)
              for rx in src.receiver_list:
                  real_or_imag = rx.component
                  if real_or_imag == 'real':
                      PTv += rx.evalDeriv(src, self.mesh, f, mkvc(v[src, rx]), adjoint=True)
                  elif real_or_imag == 'imag':
                      PTv += -rx.evalDeriv(src, self.mesh, f, mkvc(v[src, rx]), adjoint=True)
                  else:
                      raise Exception('Must be real or imag')
              dA_duIT = da.from_delayed(dask.delayed(mkvc(self.Ainv[nF] * PTv)),
                                        shape=(self.mesh.nE * 2,), dtype=float)
              dA_dmT = dask.delayed(self.getADeriv)(freq, u_src, dA_duIT, adjoint=True)
              dRHS_dmT = dask.delayed(self.getRHSDeriv)(freq, dA_duIT, adjoint=True)
              du_dmT = da.from_delayed(-dA_dmT, shape=(self.model.size,),
                                       dtype=complex)
              du_dmT += da.from_delayed(dRHS_dmT, shape=(self.model.size,), dtype=complex)
              Jtv += du_dmT.real
      return Jtv.compute()
  \<close>
  Modelled from the spec: the data class, which is not part of the sources at hand.
  \<^verbatim>\<open>Data(self.survey, v)\<close> partitions the vector by source and receiver in the layout of
  the survey, which needs a vector of \<open>nD\<close> entries (any other is reported as
  \<^verbatim>\<open>ValueError\<close>); the loops visit the pairs in the order of the layout, so
  \<^verbatim>\<open>v[src, rx]\<close> is the next \<open>rx_nD rx\<close> entries of what is left of the vector.
\<close>

definition Data :: "survey \<Rightarrow> rvec \<Rightarrow> error + rvec" where
  "Data sv v = (if length v = nD sv then Inr v else Inl ValueError)"

definition zeros2 :: "nat \<Rightarrow> ndarray" where
  "zeros2 n = Arr2 (replicate n (0, 0))"

definition Jtvec_rx :: "fields \<Rightarrow> receiver \<Rightarrow> rvec \<Rightarrow> ndarray \<Rightarrow> error + ndarray" where
  "Jtvec_rx f rx v_src_rx PTv =
     (if component rx = ''real''
      then nd_add PTv (evalDeriv_adjoint rx f v_src_rx)
      else if component rx = ''imag''
      then nd_add PTv (nd_neg (evalDeriv_adjoint rx f v_src_rx))
      else Inl (Exception ''Must be real or imag''))"

fun Jtvec_rx_loop :: "fields \<Rightarrow> receiver list \<Rightarrow> rvec \<Rightarrow> ndarray \<Rightarrow> error + ndarray \<times> rvec" where
  "Jtvec_rx_loop f [] v PTv = Inr (PTv, v)"
| "Jtvec_rx_loop f (rx # rxs) v PTv =
     bindE (Jtvec_rx f rx (take (rx_nD rx) v) PTv) (\<lambda>PTv'.
     Jtvec_rx_loop f rxs (drop (rx_nD rx) v) PTv')"

text \<open>
  The part of the loop body that runs while the loops run: everything up to
  \<^verbatim>\<open>dA_duIT\<close>. What is wrapped by \<^verbatim>\<open>dask.delayed\<close> runs at the final
  \<^verbatim>\<open>Jtv.compute()\<close>; until then it is a task that holds the frequency, the fields of
  the source and \<^verbatim>\<open>dA_duIT\<close>.
\<close>

type_synonym task = "real \<times> ndarray \<times> cvec"

definition Jtvec_dA_duIT :: "simulation \<Rightarrow> sim_state \<Rightarrow> nat \<Rightarrow> ndarray \<Rightarrow> error + cvec" where
  "Jtvec_dA_duIT sim st nF PTv =
     bindE (get_Ainv_slot st nF) (\<lambda>slot.
     bindE (slot_mul slot PTv) (\<lambda>x.
     Inr (mkvc x)))"

definition Jtvec_src :: "simulation \<Rightarrow> sim_state \<Rightarrow> fields \<Rightarrow> nat \<Rightarrow> real \<Rightarrow> source \<Rightarrow> rvec
    \<Rightarrow> error + task \<times> rvec" where
  "Jtvec_src sim st f nF freq src v =
     bindE (fields_get f src) (\<lambda>u_src.
     bindE (Jtvec_rx_loop f (receiver_list src) v (zeros2 (nE sim))) (\<lambda>(PTv, rest).
     bindE (Jtvec_dA_duIT sim st nF PTv) (\<lambda>dA_duIT.
     Inr ((freq, u_src, dA_duIT), rest))))"

fun Jtvec_src_loop :: "simulation \<Rightarrow> sim_state \<Rightarrow> fields \<Rightarrow> nat \<Rightarrow> real \<Rightarrow> source list \<Rightarrow> rvec
    \<Rightarrow> error + task list \<times> rvec" where
  "Jtvec_src_loop sim st f nF freq [] v = Inr ([], v)"
| "Jtvec_src_loop sim st f nF freq (src # srcs) v =
     bindE (Jtvec_src sim st f nF freq src v) (\<lambda>(t, rest).
     bindE (Jtvec_src_loop sim st f nF freq srcs rest) (\<lambda>(ts, rest').
     Inr (t # ts, rest')))"

fun Jtvec_freq_loop :: "simulation \<Rightarrow> sim_state \<Rightarrow> fields \<Rightarrow> (nat \<times> real) list \<Rightarrow> rvec
    \<Rightarrow> error + task list \<times> rvec" where
  "Jtvec_freq_loop sim st f [] v = Inr ([], v)"
| "Jtvec_freq_loop sim st f ((nF, freq) # rest) v =
     bindE (Jtvec_src_loop sim st f nF freq (get_sources_by_frequency (survey sim) freq) v)
       (\<lambda>(ts, v').
     bindE (Jtvec_freq_loop sim st f rest v') (\<lambda>(ts', v'').
     Inr (ts @ ts', v'')))"

text \<open>
  What \<^verbatim>\<open>Jtv.compute()\<close> runs for one task. The real part is taken of a vector of the
  length of the model; a result of another shape is reported as \<^verbatim>\<open>ValueError\<close>.
\<close>

fun real_part :: "ndarray \<Rightarrow> error + rvec" where
  "real_part (Vec v) = Inr (map Re v)"
| "real_part (Arr2 rows) = Inl ValueError"

definition Jtvec_task :: "simulation \<Rightarrow> rvec \<Rightarrow> task \<Rightarrow> error + rvec" where
  "Jtvec_task sim m t =
     (case t of (freq, u_src, dA_duIT) \<Rightarrow>
        bindE (getADeriv sim m freq u_src dA_duIT True) (\<lambda>dA_dmT.
        bindE (getRHSDeriv sim m freq dA_duIT True) (\<lambda>dRHS_dmT.
        bindE (nd_add (nd_neg dA_dmT) dRHS_dmT) (\<lambda>du_dmT.
        real_part du_dmT))))"

fun Jtvec_compute :: "simulation \<Rightarrow> rvec \<Rightarrow> task list \<Rightarrow> rvec \<Rightarrow> error + rvec" where
  "Jtvec_compute sim m [] Jtv = Inr Jtv"
| "Jtvec_compute sim m (t # ts) Jtv =
     bindE (Jtvec_task sim m t) (\<lambda>du_dmT_real.
     bindE (vec_add Jtv du_dmT_real) (\<lambda>Jtv'.
     Jtvec_compute sim m ts Jtv'))"

definition Jtvec_run :: "simulation \<Rightarrow> sim_state \<Rightarrow> rvec \<Rightarrow> rvec \<Rightarrow> fields \<Rightarrow> error + rvec" where
  "Jtvec_run sim st m v f =
     bindE (Data (survey sim) v) (\<lambda>d.
     bindE (Jtvec_freq_loop sim st f (enumerate 0 (frequencies (survey sim))) d) (\<lambda>(tasks, rest).
     Jtvec_compute sim m tasks (replicate (length m) 0)))"

definition Jtvec :: "simulation \<Rightarrow> sim_state \<Rightarrow> rvec \<Rightarrow> rvec \<Rightarrow> fields option
    \<Rightarrow> (error + rvec) \<times> sim_state" where
  "Jtvec sim st m v f =
     (case (case f of None \<Rightarrow> fields_compute sim st (Some m) | Some f' \<Rightarrow> (Inr f', st)) of
        (Inl e, st1) \<Rightarrow> (Inl e, st1)
      | (Inr f', st1) \<Rightarrow>
          (let st2 = st1\<lparr>model := Some m\<rparr> in (Jtvec_run sim st2 m v f', st2)))"

text \<open>
  The result of a floating-point division: numpy does not raise on a zero divisor, it
  produces an infinity or a NaN.
\<close>

datatype npfloat = Finite real | PosInf | NegInf | NaN

definition np_divide :: "real \<Rightarrow> real \<Rightarrow> npfloat" where
  "np_divide x d =
     (if d \<noteq> 0 then Finite (x / d)
      else if 0 < x then PosInf
      else if x < 0 then NegInf
      else NaN)"

text \<open>\<^verbatim>\<open>np.max\<close> raises \<^verbatim>\<open>ValueError\<close> on an array without entries.\<close>

fun np_max :: "real list \<Rightarrow> error + real" where
  "np_max [] = Inl ValueError"
| "np_max (x # xs) = Inr (fold max xs x)"

subsection \<open>The diagonal estimate of \<open>J\<^sup>T J\<close>\<close>

text \<open>
  \<^verbatim>\<open>
  def getJtJdiag(self, m, k):
      if k is None:
          k = int(self.survey.nD / 10)
      def JtJv(v):
          Jv = self.Jvec(m, v)
          return self.Jtvec(m, Jv)
      JtJdiag = diagEst(JtJv, len(m), k=k)
      JtJdiag = JtJdiag / np.max(JtJdiag)
      return JtJdiag
  \<close>
  \<open>n_data\<close> is the survey's number of data, a natural number; \<^verbatim>\<open>int(nD / 10)\<close> truncates the
  quotient, which for a natural number is \<open>n_data div 10\<close> (the double-precision quotient is
  exact enough for that as long as \<open>n_data\<close> stays below \<open>2^49\<close>).
\<close>

definition getJtJdiag_k :: "nat \<Rightarrow> int option \<Rightarrow> int" where
  "getJtJdiag_k n_data k = (case k of None \<Rightarrow> int (n_data div 10) | Some k' \<Rightarrow> k')"

text \<open>
  The methods \<^verbatim>\<open>self.Jvec\<close> and \<^verbatim>\<open>self.Jtvec\<close> and the helper \<^verbatim>\<open>diagEst\<close> of
  \<^verbatim>\<open>SimPEG.utils\<close> are parameters: \<open>diagEst matFun n k\<close> is handed the operator, the
  length of the model and the number of probes.
\<close>

type_synonym estimator = "(rvec \<Rightarrow> error + rvec) \<Rightarrow> nat \<Rightarrow> int \<Rightarrow> error + rvec"

definition JtJv :: "(rvec \<Rightarrow> rvec \<Rightarrow> error + rvec) \<Rightarrow> (rvec \<Rightarrow> rvec \<Rightarrow> error + rvec)
    \<Rightarrow> rvec \<Rightarrow> rvec \<Rightarrow> error + rvec" where
  "JtJv Jvec_m Jtvec_m m v =
     (case Jvec_m m v of Inl e \<Rightarrow> Inl e | Inr Jv \<Rightarrow> Jtvec_m m Jv)"

definition getJtJdiag :: "estimator \<Rightarrow> (rvec \<Rightarrow> rvec \<Rightarrow> error + rvec)
    \<Rightarrow> (rvec \<Rightarrow> rvec \<Rightarrow> error + rvec) \<Rightarrow> nat \<Rightarrow> rvec \<Rightarrow> int option \<Rightarrow> error + npfloat list" where
  "getJtJdiag diagEst Jvec_m Jtvec_m n_data m k =
     (let k' = getJtJdiag_k n_data k in
      case diagEst (JtJv Jvec_m Jtvec_m m) (length m) k' of
        Inl e \<Rightarrow> Inl e
      | Inr JtJdiag \<Rightarrow>
          (case np_max JtJdiag of
             Inl e \<Rightarrow> Inl e
           | Inr mx \<Rightarrow> Inr (map (\<lambda>x. np_divide x mx) JtJdiag)))"

subsection \<open>A probing estimator\<close>

text \<open>
  Modelled from the spec: \<^verbatim>\<open>diagEst\<close> of \<^verbatim>\<open>SimPEG.utils\<close>, which is not part of the
  sources at hand. The spec has it draw \<open>k\<close> probe vectors, apply the operator to each and
  average the elementwise products of probe and image. The draws are the parameter
  \<open>draw\<close> (\<open>draw n i\<close> is the \<open>i\<close>-th probe of length \<open>n\<close>); an average over no probe is
  reported as \<open>ZeroDivisionError\<close>.
\<close>

fun probe_sum :: "(rvec \<Rightarrow> error + rvec) \<Rightarrow> rvec list \<Rightarrow> rvec \<Rightarrow> error + rvec" where
  "probe_sum matFun [] acc = Inr acc"
| "probe_sum matFun (v # vs) acc =
     (case matFun v of
        Inl e \<Rightarrow> Inl e
      | Inr Mv \<Rightarrow> probe_sum matFun vs (map2 (+) acc (map2 (*) Mv v)))"

definition diagEst_probing :: "(nat \<Rightarrow> nat \<Rightarrow> rvec) \<Rightarrow> estimator" where
  "diagEst_probing draw matFun n k =
     (if k \<le> 0 then Inl ZeroDivisionError
      else case probe_sum matFun (map (draw n) [0..<nat k]) (replicate n 0) of
             Inl e \<Rightarrow> Inl e
           | Inr s \<Rightarrow> Inr (map (\<lambda>x. x / real_of_int k) s))"

subsection \<open>Inner products\<close>

text \<open>
  The product \<open>\<Sum>\<^sub>i x\<^sub>i y\<^sub>i\<close>, without conjugation, which over the reals is the
  inner product of the adjoint test.
\<close>

definition dot :: "'a::comm_semiring_0 list \<Rightarrow> 'a list \<Rightarrow> 'a" where
  "dot x y = sum_list (map2 (*) x y)"

text \<open>
  The Hermitian inner product \<open>\<Sum>\<^sub>i cnj x\<^sub>i y\<^sub>i\<close>: the conjugate transpose of an operator
  is its transpose with respect to this product.
\<close>

definition hdot :: "cvec \<Rightarrow> cvec \<Rightarrow> complex" where
  "hdot x y = sum_list (map2 (\<lambda>a b. cnj a * b) x y)"

text \<open>The conjugate transpose of a matrix.\<close>

definition mat_H :: "cmat \<Rightarrow> cmat" where
  "mat_H A = CMat (ncol A) (nrow A) (\<lambda>i j. cnj (entry A j i))"

section \<open>Example simulations\<close>

text \<open>
  The sensitivity with the single row \<open>(-2, 3/2, 3/2)\<close>, probed once with the vector of
  ones: the estimate is \<open>(-2, 3/2, 3/2)\<close>, its largest entry is \<open>3/2\<close>.
\<close>

definition Jvec_row :: "rvec \<Rightarrow> rvec \<Rightarrow> rvec \<Rightarrow> error + rvec" where
  "Jvec_row j m v = Inr [sum_list (map2 (*) j v)]"

definition Jtvec_row :: "rvec \<Rightarrow> rvec \<Rightarrow> rvec \<Rightarrow> error + rvec" where
  "Jtvec_row j m w = (case w of [] \<Rightarrow> Inl ValueError | y # _ \<Rightarrow> Inr (map (\<lambda>x. x * y) j))"

text \<open>A backend that solves systems with one unknown.\<close>

definition Solver_direct :: "cmat \<Rightarrow> error + solver" where
  "Solver_direct A =
     (if nrow A = 1 \<and> ncol A = 1 \<and> entry A 0 0 \<noteq> 0
      then Inr \<lparr>s_size = 1, s_inv = (\<lambda>i j. 1 / entry A 0 0), s_clean = True\<rparr>
      else Inl SolverError)"

text \<open>
  One source at the frequency \<open>1 / 2\<pi>\<close> Hz, whose angular frequency is 1, with two
  receivers of one datum each: the real part of the first polarization and the imaginary
  part of the second.
\<close>

definition rx_real :: receiver where
  "rx_real = \<lparr>component = ''real'', rx_nD = 1,
     evalDeriv = (\<lambda>f x. [Re (x ! 0)]),
     evalDeriv_adjoint = (\<lambda>f y. Arr2 [(complex_of_real (y ! 0), 0)])\<rparr>"

definition rx_imag :: receiver where
  "rx_imag = \<lparr>component = ''imag'', rx_nD = 1,
     evalDeriv = (\<lambda>f x. [Im (x ! 1)]),
     evalDeriv_adjoint = (\<lambda>f y. Arr2 [(0, \<i> * complex_of_real (y ! 0))])\<rparr>"

definition src_ex :: source where
  "src_ex = \<lparr>src_id = 0, receiver_list = [rx_real, rx_imag],
     S_e = (\<lambda>m. Arr2 [(1, \<i>)]),
     S_eDeriv = (\<lambda>m v adjoint. if adjoint then Vec [v ! 0 + 2 * v ! 1] else Arr2 [(v ! 0, 2 * v ! 0)]),
     S_eDeriv_m = (\<lambda>m v adjoint. if adjoint then Vec [v ! 0 + v ! 1] else Vec [v ! 0, v ! 0])\<rparr>"

definition freq_ex :: real where
  "freq_ex = 1 / (2 * pi)"

definition survey_ex :: survey where
  "survey_ex = \<lparr>frequencies = [freq_ex],
     get_sources_by_frequency = (\<lambda>freq. if freq = freq_ex then [src_ex] else [])\<rparr>"

text \<open>A 3-D simulation on a mesh with one edge and a model with one parameter.\<close>

definition sim3D_ex :: simulation where
  "sim3D_ex = \<lparr>variant = Simulation3DPrimarySecondary, nE = 1,
     edgeCurl = CMat 1 1 (\<lambda>i j. 1), MfMui = CMat 1 1 (\<lambda>i j. 1),
     MeSigma = (\<lambda>m. CMat 1 1 (\<lambda>i j. complex_of_real (m ! 0))),
     MeSigmaDeriv_mat = (\<lambda>m u. CMat 1 1 (\<lambda>i j. u ! 0)),
     nodalGrad = CMat 0 0 (\<lambda>i j. 0), getEdgeInnerProduct_mui = CMat 0 0 (\<lambda>i j. 0),
     getFaceInnerProduct = (\<lambda>s. CMat 0 0 (\<lambda>i j. 0)),
     getFaceInnerProductDeriv = (\<lambda>s u. CMat 0 0 (\<lambda>i j. 0)),
     sigma = (\<lambda>m. m), sigmaDeriv = (\<lambda>m. CMat 1 1 (\<lambda>i j. 1)),
     survey = survey_ex, Solver = Solver_direct\<rparr>"

text \<open>
  A 1-D simulation on a mesh with one cell: one edge, two nodes, and the gradient from
  the nodes to the edge.
\<close>

definition sim1D_ex :: simulation where
  "sim1D_ex = \<lparr>variant = Simulation1DPrimarySecondary, nE = 1,
     edgeCurl = CMat 0 0 (\<lambda>i j. 0), MfMui = CMat 0 0 (\<lambda>i j. 0),
     MeSigma = (\<lambda>m. CMat 0 0 (\<lambda>i j. 0)),
     MeSigmaDeriv_mat = (\<lambda>m u. CMat 0 0 (\<lambda>i j. 0)),
     nodalGrad = CMat 1 2 (\<lambda>i j. if j = 0 then - 1 else 1),
     getEdgeInnerProduct_mui = CMat 1 1 (\<lambda>i j. 1),
     getFaceInnerProduct = (\<lambda>s. CMat 2 2 (\<lambda>i j. if i = j then complex_of_real (s ! 0) else 0)),
     getFaceInnerProductDeriv = (\<lambda>s u. CMat 2 1 (\<lambda>i j. u ! i)),
     sigma = (\<lambda>m. m), sigmaDeriv = (\<lambda>m. CMat 1 1 (\<lambda>i j. 1)),
     survey = survey_ex, Solver = Solver_direct\<rparr>"

text \<open>A simulation that has just been built: no model, no factorization, no call yet.\<close>

definition st_new :: sim_state where
  "st_new = \<lparr>model = None, Ainv = None, trace = []\<rparr>"



text \<open>
  What the forward solve of the 3-D example gives for the model \<open>(1)\<close>: the system matrix
  is \<open>(1 + \<i>)\<close>, its factorization solves by dividing by \<open>1 + \<i>\<close>, the right-hand side is
  \<open>(- \<i>, 1)\<close>.
\<close>

definition h_ex :: solver where
  "h_ex = \<lparr>s_size = 1, s_inv = (\<lambda>i j. 1 / (1 + \<i>)), s_clean = True\<rparr>"

definition F_ex :: fields where
  "F_ex = (\<lambda>_. None)(0 \<mapsto> Arr2 [((- 1 - \<i>) / 2, (1 - \<i>) / 2)])"

definition st_cached :: sim_state where
  "st_cached = \<lparr>model = Some [1], Ainv = Some [Some h_ex], trace = [Factorize 0]\<rparr>"

text \<open>A state whose cached factorization raises when it is released.\<close>

definition st_stuck :: sim_state where
  "st_stuck = \<lparr>model = Some [1], Ainv = Some [Some (h_ex\<lparr>s_clean := False\<rparr>)], trace = []\<rparr>"

text \<open>The system matrix of the 3-D example for the model \<open>(1)\<close>.\<close>

definition A_ex :: cmat where
  "A_ex = CMat 1 1 (\<lambda>i j. 1 + \<i>)"








section \<open>Properties\<close>

subsection \<open>Auxiliary facts\<close>

lemma bindE_Inl [simp]: "bindE (Inl e) f = Inl e"
  by (simp add: bindE_def)

lemma bindE_Inr [simp]: "bindE (Inr x) f = f x"
  by (simp add: bindE_def)

lemma bindE_eq_Inr: "bindE r f = Inr y \<longleftrightarrow> (\<exists>x. r = Inr x \<and> f x = Inr y)"
  by (cases r) simp_all

lemma dot_sum: "length x = length y \<Longrightarrow> dot x y = (\<Sum>i<length x. x ! i * y ! i)"
  unfolding dot_def
  by (simp add: sum_list_sum_nth atLeast0LessThan)

lemma dot_append: "length a = length c \<Longrightarrow> dot (a @ b) (c @ d) = dot a c + dot b d"
  by (simp add: dot_def)

lemma dot_scale_right: "dot x (map (\<lambda>z. c * z) y) = c * dot x y"
proof (induction x arbitrary: y)
  case Nil
  show ?case by (simp add: dot_def)
next
  case (Cons a x)
  show ?case
  proof (cases y)
    case Nil
    then show ?thesis by (simp add: dot_def)
  next
    case (Cons b y')
    with Cons.IH [of y'] show ?thesis by (simp add: dot_def algebra_simps)
  qed
qed

lemma dot_scale_left: "dot (map (\<lambda>z. c * z) x) y = c * dot x y"
proof (induction x arbitrary: y)
  case Nil
  show ?case by (simp add: dot_def)
next
  case (Cons a x)
  show ?case
  proof (cases y)
    case Nil
    then show ?thesis by (simp add: dot_def)
  next
    case (Cons b y')
    with Cons.IH [of y'] show ?thesis by (simp add: dot_def algebra_simps)
  qed
qed

lemma dot_add_left:
  "length a = length b \<Longrightarrow> dot (map2 (+) a b) y = dot a y + dot b y"
proof (induction a arbitrary: b y)
  case Nil
  then show ?case by (simp add: dot_def)
next
  case (Cons x a)
  then obtain x' b' where b: "b = x' # b'" by (cases b) auto
  show ?case
  proof (cases y)
    case Nil
    then show ?thesis by (simp add: dot_def)
  next
    case (Cons z y')
    with Cons.IH [of b' y'] Cons.prems b show ?thesis by (simp add: dot_def algebra_simps)
  qed
qed

lemma row_dot_sum: "length v = ncol A \<Longrightarrow> row_dot A v i = (\<Sum>j<ncol A. entry A i j * v ! j)"
  unfolding row_dot_def
  by (simp add: sum_list_sum_nth atLeast0LessThan)

lemma mat_vec_transpose:
  assumes "length v = ncol A" "length w = nrow A"
  shows "dot w (map (row_dot A v) [0..<nrow A]) = dot (map (row_dot (mat_T A) w) [0..<ncol A]) v"
proof -
  have "dot w (map (row_dot A v) [0..<nrow A]) = (\<Sum>i<nrow A. w ! i * (\<Sum>j<ncol A. entry A i j * v ! j))"
    using assms by (simp add: dot_sum row_dot_sum)
  also have "\<dots> = (\<Sum>i<nrow A. \<Sum>j<ncol A. w ! i * (entry A i j * v ! j))"
    by (simp add: sum_distrib_left)
  also have "\<dots> = (\<Sum>j<ncol A. \<Sum>i<nrow A. w ! i * (entry A i j * v ! j))"
    by (rule sum.swap)
  also have "\<dots> = (\<Sum>j<ncol A. (\<Sum>i<nrow A. entry A i j * w ! i) * v ! j)"
    by (simp add: sum_distrib_left sum_distrib_right mult_ac)
  also have "\<dots> = dot (map (row_dot (mat_T A) w) [0..<ncol A]) v"
    using assms by (simp add: dot_sum row_dot_sum mat_T_def)
  finally show ?thesis .
qed

lemma mat_vec_Inr: "mat_vec A v = Inr y \<longleftrightarrow> length v = ncol A \<and> y = map (row_dot A v) [0..<nrow A]"
  by (auto simp: mat_vec_def)

lemma mat_vec_pairing:
  assumes "mat_vec A v = Inr y" "mat_vec (mat_T A) w = Inr z"
  shows "dot w y = dot z v"
proof -
  have v: "length v = ncol A" and y: "y = map (row_dot A v) [0..<nrow A]"
    using assms(1) by (simp_all add: mat_vec_Inr)
  have w: "length w = nrow A" and z: "z = map (row_dot (mat_T A) w) [0..<ncol A]"
    using assms(2) by (simp_all add: mat_vec_Inr mat_T_def)
  show ?thesis unfolding y z using mat_vec_transpose [OF v w] .
qed

lemma mat_vec_length: "mat_vec A v = Inr y \<Longrightarrow> length y = nrow A"
  by (auto simp: mat_vec_def split: if_splits)

lemma mkvc_nd_scale: "mkvc (nd_scale c x) = map (\<lambda>z. c * z) (mkvc x)"
proof (cases x)
  case (Vec v)
  then show ?thesis by simp
next
  case (Arr2 rows)
  have "map fst (map (\<lambda>(a, b). (c * a, c * b)) rows) = map (\<lambda>z. c * z) (map fst rows)"
    and "map snd (map (\<lambda>(a, b). (c * a, c * b)) rows) = map (\<lambda>z. c * z) (map snd rows)"
    by (induction rows) auto
  with Arr2 show ?thesis by simp
qed

lemma mkvc_nd_neg: "mkvc (nd_neg x) = map uminus (mkvc x)"
proof (cases x)
  case (Vec v)
  then show ?thesis by simp
next
  case (Arr2 rows)
  have "map fst (map (\<lambda>(a, b). (- a, - b)) rows) = map uminus (map fst rows)"
    and "map snd (map (\<lambda>(a, b). (- a, - b)) rows) = map uminus (map snd rows)"
    by (induction rows) auto
  with Arr2 show ?thesis by simp
qed

lemma getADeriv_1D_pairing:
  assumes fwd: "getADeriv_1D sim m freq u v False = Inr y"
    and adj: "getADeriv_1D sim m freq u w True = Inr z"
  shows "dot w (mkvc y) = dot (mkvc z) v"
proof -
  from fwd obtain u1 D y' where u: "e_1dSolution u = Inr u1" and D: "MfSigmaDeriv sim m u1 = Inr D"
    and y': "mat_vec D v = Inr y'" and y: "y = nd_scale (\<i> * complex_of_real (omega freq)) (Vec y')"
    by (auto simp: getADeriv_1D_def bindE_eq_Inr)
  from adj u D obtain z' where z': "mat_vec (mat_T D) w = Inr z'"
    and z: "z = nd_scale (\<i> * complex_of_real (omega freq)) (Vec z')"
    by (auto simp: getADeriv_1D_def bindE_eq_Inr)
  show ?thesis
    unfolding y z using mat_vec_pairing [OF y' z']
    by (simp add: mkvc_nd_scale dot_scale_left dot_scale_right)
qed

lemma getADeriv_3D_pairing:
  assumes fwd: "getADeriv_3D sim m freq u v False = Inr y"
    and adj: "getADeriv_3D sim m freq u w True = Inr z"
  shows "dot w (mkvc y) = dot (mkvc z) v"
proof -
  let ?c = "\<i> * complex_of_real (omega freq)"
  from fwd obtain u0 u1 a b d where u0: "e_pxSolution u = Inr u0" and u1: "e_pySolution u = Inr u1"
    and a: "mat_vec (MeSigmaDeriv_mat sim m u0) v = Inr a"
    and b: "mat_vec (MeSigmaDeriv_mat sim m u1) v = Inr b"
    and d: "hstack2 a b = Inr d" and y: "y = nd_scale ?c d"
    by (auto simp: getADeriv_3D_def MeSigmaDeriv_def bindE_eq_Inr)
  from adj u0 u1 obtain a' b' d' where
    a': "mat_vec (mat_T (MeSigmaDeriv_mat sim m u0)) (take (nE sim) w) = Inr a'"
    and b': "mat_vec (mat_T (MeSigmaDeriv_mat sim m u1)) (drop (nE sim) w) = Inr b'"
    and d': "nd_add (Vec a') (Vec b') = Inr d'" and z: "z = nd_scale ?c d'"
    by (auto simp: getADeriv_3D_def MeSigmaDeriv_def bindE_eq_Inr)
  have lab: "length a = length b" and dd: "d = Arr2 (zip a b)"
    using d by (auto simp: hstack2_def split: if_splits)
  have lab': "length a' = length b'" and dd': "d' = Vec (map2 (+) a' b')"
    using d' by (auto split: if_splits)
  have la: "length a = length (take (nE sim) w)"
    using mat_vec_length [OF a] a' by (simp add: mat_vec_Inr mat_T_def)
  have "mkvc y = map (\<lambda>z. ?c * z) (mkvc (Arr2 (zip a b)))"
    unfolding y dd by (rule mkvc_nd_scale)
  then have "mkvc y = map (\<lambda>z. ?c * z) (a @ b)"
    using lab by simp
  then have "dot w (mkvc y) = ?c * dot w (a @ b)"
    by (simp only: dot_scale_right)
  also have "\<dots> = ?c * dot (take (nE sim) w @ drop (nE sim) w) (a @ b)"
    by simp
  also have "\<dots> = ?c * (dot (take (nE sim) w) a + dot (drop (nE sim) w) b)"
    using la by (subst dot_append) simp_all
  also have "\<dots> = ?c * (dot a' v + dot b' v)"
    using mat_vec_pairing [OF a a'] mat_vec_pairing [OF b b'] by simp
  also have "\<dots> = ?c * dot (map2 (+) a' b') v"
    using lab' by (simp add: dot_add_left)
  also have "\<dots> = dot (map (\<lambda>z. ?c * z) (mkvc (Vec (map2 (+) a' b')))) v"
    by (simp only: dot_scale_left mkvc.simps)
  also have "\<dots> = dot (mkvc z) v"
    unfolding z dd' by (simp only: mkvc_nd_scale)
  finally show ?thesis .
qed

lemmas ex_defs = sim1D_ex_def sim3D_ex_def survey_ex_def src_ex_def rx_real_def rx_imag_def
  Solver_direct_def

lemmas eval_defs = getADeriv_def getADeriv_1D_def getADeriv_3D_def MfSigmaDeriv_def MeSigmaDeriv_def
  mat_mul_def mat_vec_def row_dot_def mat_T_def hstack2_def omega_def


lemma map2_add_map_upt:
  "map2 (+) (map f [0..<n]) (map g [0..<n]) = map (\<lambda>i. f i + g i) [0..<n]"
  by (induction n) simp_all

lemma zip_map_map_upt:
  "map (\<lambda>(a, b). (c * a, c * (b::complex))) (zip (map f [0..<n]) (map g [0..<n]))
    = zip (map (\<lambda>i. c * f i) [0..<n]) (map (\<lambda>i. c * g i) [0..<n])"
  by (induction n) simp_all

lemma getADeriv_1D_forward:
  assumes "MfSigmaDeriv sim m u1 = Inr D" "length v = ncol D"
  shows "getADeriv_1D sim m freq (Vec u1) v False
    = Inr (Vec (map (\<lambda>i. \<i> * complex_of_real (omega freq) * row_dot D v i) [0..<nrow D]))"
  using assms by (simp add: getADeriv_1D_def mat_vec_def)

lemma getADeriv_1D_adjoint:
  assumes "MfSigmaDeriv sim m u1 = Inr D" "length w = nrow D"
  shows "getADeriv_1D sim m freq (Vec u1) w True
    = Inr (Vec (map (\<lambda>j. \<i> * complex_of_real (omega freq) * row_dot (mat_T D) w j) [0..<ncol D]))"
  using assms by (simp add: getADeriv_1D_def mat_vec_def mat_T_def)

lemma getADeriv_3D_forward:
  assumes "length v = ncol (MeSigmaDeriv_mat sim m (map fst rows))"
    and "length v = ncol (MeSigmaDeriv_mat sim m (map snd rows))"
    and "nrow (MeSigmaDeriv_mat sim m (map fst rows)) = nrow (MeSigmaDeriv_mat sim m (map snd rows))"
  shows "getADeriv_3D sim m freq (Arr2 rows) v False
    = Inr (Arr2 (zip
        (map (\<lambda>i. \<i> * complex_of_real (omega freq) * row_dot (MeSigmaDeriv_mat sim m (map fst rows)) v i)
           [0..<nrow (MeSigmaDeriv_mat sim m (map fst rows))])
        (map (\<lambda>i. \<i> * complex_of_real (omega freq) * row_dot (MeSigmaDeriv_mat sim m (map snd rows)) v i)
           [0..<nrow (MeSigmaDeriv_mat sim m (map snd rows))])))"
  using assms
  by (simp add: getADeriv_3D_def MeSigmaDeriv_def mat_vec_def hstack2_def zip_map_map_upt)

lemma getADeriv_3D_adjoint:
  assumes "length (take (nE sim) w) = nrow (MeSigmaDeriv_mat sim m (map fst rows))"
    and "length (drop (nE sim) w) = nrow (MeSigmaDeriv_mat sim m (map snd rows))"
    and "ncol (MeSigmaDeriv_mat sim m (map fst rows)) = ncol (MeSigmaDeriv_mat sim m (map snd rows))"
  shows "getADeriv_3D sim m freq (Arr2 rows) w True
    = Inr (Vec (map (\<lambda>j. \<i> * complex_of_real (omega freq) *
          (row_dot (mat_T (MeSigmaDeriv_mat sim m (map fst rows))) (take (nE sim) w) j
           + row_dot (mat_T (MeSigmaDeriv_mat sim m (map snd rows))) (drop (nE sim) w) j))
        [0..<ncol (MeSigmaDeriv_mat sim m (map fst rows))]))"
  using assms
  by (simp add: getADeriv_3D_def MeSigmaDeriv_def mat_vec_def mat_T_def map2_add_map_upt)

lemma getADeriv_pairing:
  assumes "getADeriv sim m freq u v False = Inr y" "getADeriv sim m freq u w True = Inr z"
  shows "dot w (mkvc y) = dot (mkvc z) v"
  using assms getADeriv_1D_pairing getADeriv_3D_pairing
  by (cases "variant sim") (simp_all add: getADeriv_def)


subsection \<open>Default number of probe vectors\<close>

text \<open>
  C8, as the code has it: without an explicit \<open>k\<close> the number of probes is the number of
  data divided by ten and truncated; an explicit \<open>k\<close> is used unchanged; the default is
  at least 1 exactly when the survey has at least ten data.
\<close>

theorem getJtJdiag_k_default:
  "getJtJdiag_k n_data None = int (n_data div 10)
   \<and> getJtJdiag_k n_data (Some k) = k
   \<and> (1 \<le> getJtJdiag_k n_data None \<longleftrightarrow> 10 \<le> n_data)"
  by (auto simp: getJtJdiag_k_def)

text \<open>
  A survey with nine data gets no probe vector at all, so the default is not at least 1
  for every survey.
\<close>

theorem getJtJdiag_k_small_survey: "\<not> 1 \<le> getJtJdiag_k 9 None"
  by (simp add: getJtJdiag_k_def)

subsection \<open>Normalisation of the diagonal estimate\<close>

lemma np_max_nonempty: "d \<noteq> [] \<Longrightarrow> np_max d = Inr (Max (set d))"
proof (cases d)
  case Nil
  assume "d \<noteq> []"
  with Nil show ?thesis by simp
next
  case (Cons x xs)
  have "np_max (x # xs) = Inr (Max (set (x # xs)))"
    by (simp only: np_max.simps Max.set_eq_fold)
  with Cons show ?thesis by simp
qed

text \<open>
  C9, as the code has it: when the estimate is not empty and its largest entry is
  positive, the result is the estimate divided entrywise by that largest entry; it
  contains the entry 1, and every entry is at most 1. An entry is at least \<open>-1\<close> exactly
  when the estimate's entry is at least minus the largest entry, which the division
  does not ensure.
\<close>

theorem getJtJdiag_normalized:
  assumes est: "diagEst (JtJv Jvec_m Jtvec_m m) (length m) (getJtJdiag_k n_data k) = Inr d"
    and ne: "d \<noteq> []"
    and pos: "0 < Max (set d)"
  shows "getJtJdiag diagEst Jvec_m Jtvec_m n_data m k = Inr (map (\<lambda>x. Finite (x / Max (set d))) d)
    \<and> 1 \<in> set (map (\<lambda>x. x / Max (set d)) d)
    \<and> (\<forall>x \<in> set d. x / Max (set d) \<le> 1 \<and> ((-1) \<le> x / Max (set d) \<longleftrightarrow> - Max (set d) \<le> x))"
proof -
  let ?mx = "Max (set d)"
  have nz: "?mx \<noteq> 0" using pos by simp
  have res: "getJtJdiag diagEst Jvec_m Jtvec_m n_data m k = Inr (map (\<lambda>x. Finite (x / ?mx)) d)"
    using nz by (simp add: getJtJdiag_def est np_max_nonempty [OF ne] np_divide_def)
  have fin: "finite (set d)" and ne': "set d \<noteq> {}" using ne by simp_all
  have "?mx \<in> set d" using Max_in [OF fin ne'] .
  then have "?mx / ?mx \<in> (\<lambda>x. x / ?mx) ` set d" by (rule imageI)
  then have one: "1 \<in> set (map (\<lambda>x. x / ?mx) d)" using nz by simp
  have bnd: "x / ?mx \<le> 1 \<and> ((-1) \<le> x / ?mx \<longleftrightarrow> - ?mx \<le> x)" if "x \<in> set d" for x
  proof -
    have "x \<le> ?mx" using Max_ge [OF fin that] .
    then have "x / ?mx \<le> 1" using pos by (simp add: divide_le_eq)
    moreover have "(-1) \<le> x / ?mx \<longleftrightarrow> - ?mx \<le> x" using pos by (simp add: le_divide_eq)
    ultimately show ?thesis by simp
  qed
  show ?thesis using res one bnd by blast
qed

theorem getJtJdiag_normalized_witness:
  "getJtJdiag (diagEst_probing (\<lambda>n i. replicate n 1)) (Jvec_row [2, 1]) (Jtvec_row [2, 1])
      1 [0, 0] (Some 1) = Inr [Finite 1, Finite (1 / 2)]
   \<and> (6::real) / Max (set [6, 3]) \<le> 1 \<and> (3::real) / Max (set [6, 3]) \<le> 1"
proof -
  have est: "diagEst_probing (\<lambda>n i. replicate n 1) (JtJv (Jvec_row [2, 1]) (Jtvec_row [2, 1]) [0, 0])
      (length [0, 0::real]) (getJtJdiag_k 1 (Some 1)) = Inr [6, 3]"
    by (simp add: diagEst_probing_def getJtJdiag_k_def JtJv_def Jvec_row_def Jtvec_row_def
        numeral_2_eq_2)
  have ne: "[6, 3::real] \<noteq> []" by simp
  have pos: "0 < Max (set [6, 3::real])" by simp
  show ?thesis
    using getJtJdiag_normalized [where diagEst = "diagEst_probing (\<lambda>n i. replicate n 1)"
        and Jvec_m = "Jvec_row [2, 1]" and Jtvec_m = "Jtvec_row [2, 1]" and m = "[0, 0]"
        and n_data = 1 and k = "Some 1" and d = "[6, 3]", OF est ne pos]
    by simp
qed

text \<open>
  With the row \<open>(-2, 3/2, 3/2)\<close> the normalised estimate has the entry \<open>-4/3\<close>, which is
  below \<open>-1\<close>.
\<close>

theorem getJtJdiag_entry_below_minus_one:
  "getJtJdiag (diagEst_probing (\<lambda>n i. replicate n 1)) (Jvec_row [-2, 3/2, 3/2])
      (Jtvec_row [-2, 3/2, 3/2]) 1 [0, 0, 0] (Some 1)
    = Inr [Finite (- (4/3)), Finite 1, Finite 1]"
  by (simp add: getJtJdiag_def diagEst_probing_def getJtJdiag_k_def JtJv_def Jvec_row_def
      Jtvec_row_def numeral_3_eq_3 np_divide_def)

subsection \<open>The derivative of the system matrix\<close>

text \<open>
  C4, as the code has it. With \<open>D\<close> the matrix of the derivative of the mass matrix
  times the field, \<^verbatim>\<open>getADeriv\<close> returns \<open>\<i>\<omega> D v\<close> in forward mode (for the 3-D
  simulation one column per polarization) and \<open>\<i>\<omega> D\<^sup>T w\<close> in adjoint mode (for the
  3-D simulation the sum over the two polarizations, each fed its half of \<open>w\<close>). The
  adjoint mode is the transpose of the forward mode with respect to the product
  without conjugation: nothing is conjugated, the factor \<open>\<i>\<omega>\<close> included.
\<close>

theorem getADeriv_forward_and_transpose:
  "(\<forall>D. MfSigmaDeriv sim m us = Inr D \<and> length v = ncol D \<longrightarrow>
      getADeriv_1D sim m freq (Vec us) v False
        = Inr (Vec (map (\<lambda>i. \<i> * complex_of_real (omega freq) * row_dot D v i) [0..<nrow D])))
   \<and> (\<forall>D. MfSigmaDeriv sim m us = Inr D \<and> length w = nrow D \<longrightarrow>
      getADeriv_1D sim m freq (Vec us) w True
        = Inr (Vec (map (\<lambda>j. \<i> * complex_of_real (omega freq) * row_dot (mat_T D) w j)
            [0..<ncol D])))
   \<and> (length v = ncol (MeSigmaDeriv_mat sim m (map fst rows))
        \<and> length v = ncol (MeSigmaDeriv_mat sim m (map snd rows))
        \<and> nrow (MeSigmaDeriv_mat sim m (map fst rows)) = nrow (MeSigmaDeriv_mat sim m (map snd rows))
      \<longrightarrow> getADeriv_3D sim m freq (Arr2 rows) v False
        = Inr (Arr2 (zip
            (map (\<lambda>i. \<i> * complex_of_real (omega freq)
                    * row_dot (MeSigmaDeriv_mat sim m (map fst rows)) v i)
               [0..<nrow (MeSigmaDeriv_mat sim m (map fst rows))])
            (map (\<lambda>i. \<i> * complex_of_real (omega freq)
                    * row_dot (MeSigmaDeriv_mat sim m (map snd rows)) v i)
               [0..<nrow (MeSigmaDeriv_mat sim m (map snd rows))]))))
   \<and> (length (take (nE sim) w) = nrow (MeSigmaDeriv_mat sim m (map fst rows))
        \<and> length (drop (nE sim) w) = nrow (MeSigmaDeriv_mat sim m (map snd rows))
        \<and> ncol (MeSigmaDeriv_mat sim m (map fst rows)) = ncol (MeSigmaDeriv_mat sim m (map snd rows))
      \<longrightarrow> getADeriv_3D sim m freq (Arr2 rows) w True
        = Inr (Vec (map (\<lambda>j. \<i> * complex_of_real (omega freq) *
              (row_dot (mat_T (MeSigmaDeriv_mat sim m (map fst rows))) (take (nE sim) w) j
               + row_dot (mat_T (MeSigmaDeriv_mat sim m (map snd rows))) (drop (nE sim) w) j))
            [0..<ncol (MeSigmaDeriv_mat sim m (map fst rows))])))
   \<and> (\<forall>y z. getADeriv sim m freq u v False = Inr y \<and> getADeriv sim m freq u w True = Inr z
        \<longrightarrow> dot w (mkvc y) = dot (mkvc z) v)"
proof (intro conjI allI impI)
  fix D
  assume "MfSigmaDeriv sim m us = Inr D \<and> length v = ncol D"
  then show "getADeriv_1D sim m freq (Vec us) v False
      = Inr (Vec (map (\<lambda>i. \<i> * complex_of_real (omega freq) * row_dot D v i) [0..<nrow D]))"
    using getADeriv_1D_forward by blast
next
  fix D
  assume "MfSigmaDeriv sim m us = Inr D \<and> length w = nrow D"
  then show "getADeriv_1D sim m freq (Vec us) w True
      = Inr (Vec (map (\<lambda>j. \<i> * complex_of_real (omega freq) * row_dot (mat_T D) w j)
          [0..<ncol D]))"
    using getADeriv_1D_adjoint by blast
next
  assume "length v = ncol (MeSigmaDeriv_mat sim m (map fst rows))
        \<and> length v = ncol (MeSigmaDeriv_mat sim m (map snd rows))
        \<and> nrow (MeSigmaDeriv_mat sim m (map fst rows)) = nrow (MeSigmaDeriv_mat sim m (map snd rows))"
  then show "getADeriv_3D sim m freq (Arr2 rows) v False
        = Inr (Arr2 (zip
            (map (\<lambda>i. \<i> * complex_of_real (omega freq)
                    * row_dot (MeSigmaDeriv_mat sim m (map fst rows)) v i)
               [0..<nrow (MeSigmaDeriv_mat sim m (map fst rows))])
            (map (\<lambda>i. \<i> * complex_of_real (omega freq)
                    * row_dot (MeSigmaDeriv_mat sim m (map snd rows)) v i)
               [0..<nrow (MeSigmaDeriv_mat sim m (map snd rows))])))"
    using getADeriv_3D_forward [of v sim m rows freq] by blast
next
  assume "length (take (nE sim) w) = nrow (MeSigmaDeriv_mat sim m (map fst rows))
        \<and> length (drop (nE sim) w) = nrow (MeSigmaDeriv_mat sim m (map snd rows))
        \<and> ncol (MeSigmaDeriv_mat sim m (map fst rows)) = ncol (MeSigmaDeriv_mat sim m (map snd rows))"
  then show "getADeriv_3D sim m freq (Arr2 rows) w True
        = Inr (Vec (map (\<lambda>j. \<i> * complex_of_real (omega freq) *
              (row_dot (mat_T (MeSigmaDeriv_mat sim m (map fst rows))) (take (nE sim) w) j
               + row_dot (mat_T (MeSigmaDeriv_mat sim m (map snd rows))) (drop (nE sim) w) j))
            [0..<ncol (MeSigmaDeriv_mat sim m (map fst rows))]))"
    using getADeriv_3D_adjoint [of sim w m rows freq] by blast
next
  fix y z
  assume "getADeriv sim m freq u v False = Inr y \<and> getADeriv sim m freq u w True = Inr z"
  then show "dot w (mkvc y) = dot (mkvc z) v"
    using getADeriv_pairing by blast
qed

text \<open>
  The five parts at the example simulations: the 1-D simulation with the field \<open>(1, 0)\<close>
  and the 3-D simulation with the field \<open>(1, \<i>)\<close>, at 1 Hz.
\<close>

theorem getADeriv_forward_and_transpose_witness:
  "getADeriv_1D sim1D_ex [1] 1 (Vec [1, 0]) [1] False = Inr (Vec [\<i> * (2 * pi), 0])
   \<and> getADeriv_1D sim1D_ex [1] 1 (Vec [1, 0]) [1, 0] True = Inr (Vec [\<i> * (2 * pi)])
   \<and> getADeriv_3D sim3D_ex [1] 1 (Arr2 [(1, \<i>)]) [1] False
        = Inr (Arr2 [(\<i> * (2 * pi), - complex_of_real (2 * pi))])
   \<and> getADeriv_3D sim3D_ex [1] 1 (Arr2 [(1, \<i>)]) [1, 1] True
        = Inr (Vec [\<i> * (2 * pi) * (1 + \<i>)])
   \<and> dot [1, 1] (mkvc (Arr2 [(\<i> * (2 * pi), - complex_of_real (2 * pi))]))
        = dot (mkvc (Vec [\<i> * (2 * pi) * (1 + \<i>)])) [1]"
proof -
  have D: "MfSigmaDeriv sim1D_ex [1] [1, 0] = Inr (CMat 2 1 (\<lambda>i j. [1, 0] ! i * 1))"
    by (simp add: ex_defs eval_defs)
  have f3: "getADeriv sim3D_ex [1] 1 (Arr2 [(1, \<i>)]) [1] False
      = Inr (Arr2 [(\<i> * (2 * pi), - complex_of_real (2 * pi))])"
    by (simp add: ex_defs eval_defs)
  have a3: "getADeriv sim3D_ex [1] 1 (Arr2 [(1, \<i>)]) [1, 1] True
      = Inr (Vec [\<i> * (2 * pi) * (1 + \<i>)])"
    by (simp add: ex_defs eval_defs)
  note inst1 = getADeriv_forward_and_transpose [where sim = sim1D_ex and m = "[1]" and freq = 1
      and us = "[1, 0]" and v = "[1]" and w = "[1, 0]" and rows = "[]" and u = "Vec [1, 0]"]
  note inst3 = getADeriv_forward_and_transpose [where sim = sim3D_ex and m = "[1]" and freq = 1
      and us = "[]" and v = "[1]" and w = "[1, 1]" and rows = "[(1, \<i>)]"
      and u = "Arr2 [(1, \<i>)]"]
  have "getADeriv_1D sim1D_ex [1] 1 (Vec [1, 0]) [1] False = Inr (Vec [\<i> * (2 * pi), 0])"
    using inst1 D by (simp add: row_dot_def omega_def numeral_2_eq_2)
  moreover have "getADeriv_1D sim1D_ex [1] 1 (Vec [1, 0]) [1, 0] True = Inr (Vec [\<i> * (2 * pi)])"
    using inst1 D by (simp add: row_dot_def mat_T_def omega_def numeral_2_eq_2)
  moreover have "getADeriv_3D sim3D_ex [1] 1 (Arr2 [(1, \<i>)]) [1] False
        = Inr (Arr2 [(\<i> * (2 * pi), - complex_of_real (2 * pi))])"
    using inst3 by (simp add: row_dot_def omega_def ex_defs)
  moreover have "getADeriv_3D sim3D_ex [1] 1 (Arr2 [(1, \<i>)]) [1, 1] True
        = Inr (Vec [\<i> * (2 * pi) * (1 + \<i>)])"
    using inst3 by (simp add: row_dot_def omega_def mat_T_def ex_defs algebra_simps)
  moreover have "dot [1, 1] (mkvc (Arr2 [(\<i> * (2 * pi), - complex_of_real (2 * pi))]))
        = dot (mkvc (Vec [\<i> * (2 * pi) * (1 + \<i>)])) [1]"
    using inst3 f3 a3 by blast
  ultimately show ?thesis by blast
qed

text \<open>
  With respect to the Hermitian inner product the adjoint mode is not the transpose of
  the forward mode, so it is not the conjugate transpose: for the 1-D example,
  \<open>\<langle>w, L v\<rangle> = 2\<pi>\<i>\<close> and \<open>\<langle>L\<^sup>T w, v\<rangle> = - 2\<pi>\<i>\<close>.
\<close>

theorem getADeriv_adjoint_not_conjugate:
  "getADeriv sim1D_ex [1] 1 (Vec [1, 0]) [1] False = Inr (Vec [\<i> * (2 * pi), 0])
   \<and> getADeriv sim1D_ex [1] 1 (Vec [1, 0]) [1, 0] True = Inr (Vec [\<i> * (2 * pi)])
   \<and> hdot [1, 0] [\<i> * (2 * pi), 0] \<noteq> hdot [\<i> * (2 * pi)] [1]"
  by (simp add: ex_defs eval_defs hdot_def complex_eq_iff numeral_2_eq_2)

subsection \<open>The sign convention of the receivers\<close>













subsection \<open>The state of the simulation\<close>

lemma model_log_event [simp]: "model (log_event ev st) = model st"
  by (simp add: log_event_def)

lemma model_store_Ainv [simp]: "model (store_Ainv nf h st) = model st"
  by (simp add: store_Ainv_def)

lemma Ainv_log_event [simp]: "Ainv (log_event ev st) = Ainv st"
  by (simp add: log_event_def)

lemma trace_log_event [simp]: "trace (log_event ev st) = trace st @ [ev]"
  by (simp add: log_event_def)

lemma trace_store_Ainv [simp]: "trace (store_Ainv nf h st) = trace st"
  by (simp add: store_Ainv_def)

lemma model_fields_3D_step: "model (snd (fields_3D_step sim nf freq F st)) = model st"
  by (simp add: fields_3D_step_def Let_def split: sum.splits prod.splits)

lemma model_fields_1D_step: "model (snd (fields_1D_step sim nf freq F st)) = model st"
  by (simp add: fields_1D_step_def Let_def split: sum.splits prod.splits)

lemma model_fields_3D_loop: "model (snd (fields_3D_loop sim nfs F st)) = model st"
proof (induction nfs arbitrary: F st)
  case Nil
  show ?case by simp
next
  case (Cons p nfs)
  obtain nf freq where p: "p = (nf, freq)" by (cases p)
  show ?case
    using Cons.IH model_fields_3D_step [of sim nf freq F st]
    by (auto simp: p split: sum.splits prod.splits)
qed

lemma model_fields_1D_loop: "model (snd (fields_1D_loop sim nfs F st)) = model st"
proof (induction nfs arbitrary: F st)
  case Nil
  show ?case by simp
next
  case (Cons p nfs)
  obtain nf freq where p: "p = (nf, freq)" by (cases p)
  show ?case
    using Cons.IH model_fields_1D_step [of sim nf freq F st]
    by (auto simp: p split: sum.splits prod.splits)
qed

lemma model_clean_loop: "model (clean_loop slots is st) = model st"
  by (induction slots "is" st rule: clean_loop.induct) (auto split: option.splits)

lemma Ainv_clean_loop: "Ainv (clean_loop slots is st) = Ainv st"
  by (induction slots "is" st rule: clean_loop.induct) (auto split: option.splits)

lemma model_release_Ainv [simp]: "model (release_Ainv sim st) = model st"
  by (simp add: release_Ainv_def model_clean_loop split: option.splits list.splits)

lemma Ainv_release_Ainv [simp]: "Ainv (release_Ainv sim st) = Ainv st"
  by (simp add: release_Ainv_def Ainv_clean_loop split: option.splits list.splits)

lemma model_fields: "model (snd (fields sim st (Some m))) = Some m"
  by (cases "variant sim")
    (simp_all add: fields_def fields_1D_def fields_3D_def Let_def model_fields_1D_loop
      model_fields_3D_loop set_model_def)

lemma fields_compute_3D:
  "variant sim = Simulation3DPrimarySecondary \<Longrightarrow> fields_compute sim st mo = fields sim st mo"
  by (simp add: fields_compute_def fields_def)


lemma snd_fields_compute: "snd (fields_compute sim st mo) = snd (fields sim st mo)"
  by (cases "variant sim")
    (auto simp: fields_compute_def fields_def split: prod.splits sum.splits)

lemma model_fields_compute: "model (snd (fields_compute sim st (Some m))) = Some m"
  by (simp only: snd_fields_compute model_fields)

lemma model_Jvec: "model (snd (Jvec sim st m v fo)) = Some m"
  using model_fields_compute [of sim st m]
  by (cases fo) (auto simp: Jvec_def Let_def split: sum.splits prod.splits)

lemma model_Jtvec: "model (snd (Jtvec sim st m v fo)) = Some m"
  using model_fields_compute [of sim st m]
  by (cases fo) (auto simp: Jtvec_def Let_def split: sum.splits prod.splits)

lemma Jvec_given_fields: "snd (Jvec sim st m v (Some f)) = st\<lparr>model := Some m\<rparr>"
  by (simp add: Jvec_def Let_def)

lemma Jtvec_given_fields: "snd (Jtvec sim st m v (Some f)) = st\<lparr>model := Some m\<rparr>"
  by (simp add: Jtvec_def Let_def)

lemma get_Ainv_slot_model [simp]: "get_Ainv_slot (st\<lparr>model := mo\<rparr>) nF = get_Ainv_slot st nF"
  by (simp add: get_Ainv_slot_def)

lemma Jvec_src_model: "Jvec_src sim (st\<lparr>model := mo\<rparr>) = Jvec_src sim st"
  by (intro ext) (simp add: Jvec_src_def Jvec_du_dm_v_def)

lemma Jvec_freq_model: "Jvec_freq sim (st\<lparr>model := mo\<rparr>) = Jvec_freq sim st"
  by (intro ext) (simp add: Jvec_freq_def Jvec_src_model)

lemma Jvec_run_model: "Jvec_run sim (st\<lparr>model := mo\<rparr>) m v f = Jvec_run sim st m v f"
  by (simp add: Jvec_run_def Jvec_freq_model)

lemma Jtvec_src_model: "Jtvec_src sim (st\<lparr>model := mo\<rparr>) = Jtvec_src sim st"
  by (intro ext) (simp add: Jtvec_src_def Jtvec_dA_duIT_def)

lemma Jtvec_src_loop_model:
  "Jtvec_src_loop sim (st\<lparr>model := mo\<rparr>) f nF freq srcs v = Jtvec_src_loop sim st f nF freq srcs v"
  by (induction srcs arbitrary: v) (simp_all add: Jtvec_src_model)

lemma Jtvec_freq_loop_model:
  "Jtvec_freq_loop sim (st\<lparr>model := mo\<rparr>) f nfs v = Jtvec_freq_loop sim st f nfs v"
  by (induction nfs arbitrary: v) (auto simp: Jtvec_src_loop_model)

lemma Jtvec_run_model: "Jtvec_run sim (st\<lparr>model := mo\<rparr>) m v f = Jtvec_run sim st m v f"
  by (simp add: Jtvec_run_def Jtvec_freq_loop_model)

lemma trace_set_model [simp]: "trace (set_model mo st) = trace st"
  by (simp add: set_model_def split: option.splits)

lemma Ainv_set_model [simp]: "Ainv (set_model mo st) = Ainv st"
  by (simp add: set_model_def split: option.splits)

lemma upt_shift: "[k..<k + Suc n] = k # [Suc k..<Suc k + n]"
  by (metis add_Suc add_Suc_right less_add_Suc1 upt_conv_Cons)

lemma fields_3D_step_Inr:
  assumes "fields_3D_step sim nf freq F st = (Inr F1, st1)" "model st = Some m"
  shows "\<exists>A h. getA_3D sim m freq = Inr A \<and> Solver sim A = Inr h
           \<and> st1 = store_Ainv nf h (log_event (Factorize nf) st)"
  using assms
  by (auto simp: fields_3D_step_def current_model_def Let_def bindE_eq_Inr
      split: sum.splits prod.splits)

lemma fields_3D_loop_cache:
  assumes "fields_3D_loop sim (enumerate k fs) F st = (Inr F', st')"
    and "Ainv st = Some slots" and "k + length fs \<le> length slots" and "model st = Some m"
  shows "\<exists>slots'. Ainv st' = Some slots' \<and> length slots' = length slots
           \<and> (\<forall>i<k. slots' ! i = slots ! i)
           \<and> (\<forall>j<length fs. \<exists>A h. getA_3D sim m (fs ! j) = Inr A \<and> Solver sim A = Inr h
                  \<and> slots' ! (k + j) = Some h)
           \<and> trace st' = trace st @ map Factorize [k..<k + length fs]"
  using assms
proof (induction fs arbitrary: k F st slots)
  case Nil
  then show ?case by simp
next
  case (Cons freq fs)
  from Cons.prems(1) obtain F1 st1 where step: "fields_3D_step sim k freq F st = (Inr F1, st1)"
    and rest: "fields_3D_loop sim (enumerate (Suc k) fs) F1 st1 = (Inr F', st')"
    by (auto split: sum.splits prod.splits)
  from fields_3D_step_Inr [OF step Cons.prems(4)] obtain A h where
    A: "getA_3D sim m freq = Inr A" and h: "Solver sim A = Inr h"
    and st1: "st1 = store_Ainv k h (log_event (Factorize k) st)" by blast
  have a1: "Ainv st1 = Some (slots[k := Some h])"
    using st1 Cons.prems(2) by (simp add: store_Ainv_def)
  have l1: "Suc k + length fs \<le> length (slots[k := Some h])" using Cons.prems(3) by simp
  have m1: "model st1 = Some m" using st1 Cons.prems(4) by simp
  from Cons.IH [OF rest a1 l1 m1] obtain slots' where
    s1: "Ainv st' = Some slots'" and s2: "length slots' = length slots"
    and s3: "\<forall>i<Suc k. slots' ! i = slots[k := Some h] ! i"
    and s4: "\<forall>j<length fs. \<exists>A h. getA_3D sim m (fs ! j) = Inr A \<and> Solver sim A = Inr h
                  \<and> slots' ! (Suc k + j) = Some h"
    and s5: "trace st' = trace st1 @ map Factorize [Suc k..<Suc k + length fs]"
    by auto
  have k: "k < length slots" using Cons.prems(3) by simp
  have t1: "trace st1 = trace st @ [Factorize k]" using st1 by simp
  have p3: "\<forall>i<k. slots' ! i = slots ! i" using s3 by auto
  have sk: "slots' ! k = Some h" using s3 k by auto
  have p4: "\<exists>A h. getA_3D sim m ((freq # fs) ! j) = Inr A \<and> Solver sim A = Inr h
                  \<and> slots' ! (k + j) = Some h" if "j < length (freq # fs)" for j
  proof (cases j)
    case 0
    then show ?thesis using A h sk by auto
  next
    case (Suc j')
    then show ?thesis using s4 that by auto
  qed
  have p5: "trace st' = trace st @ map Factorize [k..<k + length (freq # fs)]"
    using s5 t1 upt_shift [of k "length fs"] by (simp del: upt_Suc)
  show ?case using s1 s2 p3 p4 p5 by blast
qed

lemma trace_fields_3D_step:
  "trace (snd (fields_3D_step sim nf freq F st)) = trace st
   \<or> trace (snd (fields_3D_step sim nf freq F st)) = trace st @ [Factorize nf]"
  by (auto simp: fields_3D_step_def Let_def split: sum.splits prod.splits)

lemma trace_fields_3D_step_Inr:
  "fields_3D_step sim nf freq F st = (Inr F1, st1) \<Longrightarrow> trace st1 = trace st @ [Factorize nf]"
  by (auto simp: fields_3D_step_def Let_def split: sum.splits prod.splits)

lemma trace_fields_3D_loop:
  "\<exists>j\<le>length fs. trace (snd (fields_3D_loop sim (enumerate k fs) F st))
      = trace st @ map Factorize [k..<k + j]"
proof (induction fs arbitrary: k F st)
  case Nil
  show ?case by simp
next
  case (Cons freq fs)
  obtain r st1 where step: "fields_3D_step sim k freq F st = (r, st1)"
    by (cases "fields_3D_step sim k freq F st")
  show ?case
  proof (cases r)
    case (Inl e)
    from trace_fields_3D_step [of sim k freq F st] step
    have "trace st1 = trace st @ map Factorize [k..<k + 0] \<or> trace st1 = trace st @ map Factorize [k..<k + 1]"
      by simp
    then show ?thesis
    proof
      assume "trace st1 = trace st @ map Factorize [k..<k + 0]"
      then show ?thesis using step Inl by (intro exI [of _ 0]) simp
    next
      assume "trace st1 = trace st @ map Factorize [k..<k + 1]"
      then show ?thesis using step Inl by (intro exI [of _ 1]) simp
    qed
  next
    case (Inr F1)
    from trace_fields_3D_step_Inr step Inr have t1: "trace st1 = trace st @ [Factorize k]" by blast
    from Cons.IH [of "Suc k" F1 st1] obtain j where j: "j \<le> length fs"
      and tr: "trace (snd (fields_3D_loop sim (enumerate (Suc k) fs) F1 st1))
        = trace st1 @ map Factorize [Suc k..<Suc k + j]" by blast
    have "trace (snd (fields_3D_loop sim (enumerate k (freq # fs)) F st))
        = trace st @ map Factorize [k..<k + Suc j]"
      using step Inr tr t1 upt_shift [of k j] by (simp del: upt_Suc)
    then show ?thesis using j by (intro exI [of _ "Suc j"]) simp
  qed
qed


lemma clean_loop_all:
  assumes "\<forall>i\<in>set is. i < length slots \<and> (\<exists>h. slots ! i = Some h \<and> s_clean h)"
  shows "trace (clean_loop slots is st) = trace st @ map Clean is"
  using assms
proof (induction "is" arbitrary: st)
  case Nil
  show ?case by simp
next
  case (Cons i rest)
  then obtain h where "i < length slots" "slots ! i = Some h" "s_clean h" by auto
  then show ?case using Cons by simp
qed

lemma release_Ainv_all:
  assumes "Ainv st = Some slots" "slots \<noteq> []" "length slots = num_frequencies (survey sim)"
    and "\<forall>s\<in>set slots. \<exists>h. s = Some h \<and> s_clean h"
  shows "trace (release_Ainv sim st) = trace st @ map Clean [0..<num_frequencies (survey sim)]"
proof -
  from assms(2,4) obtain h0 rest where slots: "slots = Some h0 # rest"
    by (cases slots) auto
  have "\<forall>i\<in>set [0..<num_frequencies (survey sim)].
      i < length slots \<and> (\<exists>h. slots ! i = Some h \<and> s_clean h)"
    using assms(3,4) nth_mem [of _ slots] by fastforce
  from clean_loop_all [OF this] show ?thesis
    using assms(1) slots by (simp add: release_Ainv_def)
qed

lemma fields_3D_step_indep:
  assumes "model st = model st'" "Ainv st = Ainv st'"
  shows "fst (fields_3D_step sim nf freq F st) = fst (fields_3D_step sim nf freq F st')
    \<and> model (snd (fields_3D_step sim nf freq F st)) = model (snd (fields_3D_step sim nf freq F st'))
    \<and> Ainv (snd (fields_3D_step sim nf freq F st)) = Ainv (snd (fields_3D_step sim nf freq F st'))"
  using assms
  by (auto simp: fields_3D_step_def current_model_def Let_def store_Ainv_def
      split: sum.splits prod.splits)

lemma fields_3D_loop_indep:
  assumes "model st = model st'" "Ainv st = Ainv st'"
  shows "fst (fields_3D_loop sim nfs F st) = fst (fields_3D_loop sim nfs F st')
    \<and> model (snd (fields_3D_loop sim nfs F st)) = model (snd (fields_3D_loop sim nfs F st'))
    \<and> Ainv (snd (fields_3D_loop sim nfs F st)) = Ainv (snd (fields_3D_loop sim nfs F st'))"
  using assms
proof (induction nfs arbitrary: F st st')
  case Nil
  then show ?case by simp
next
  case (Cons p nfs)
  obtain nf freq where p: "p = (nf, freq)" by (cases p)
  obtain r st1 where s1: "fields_3D_step sim nf freq F st = (r, st1)"
    by (cases "fields_3D_step sim nf freq F st")
  obtain r' st1' where s1': "fields_3D_step sim nf freq F st' = (r', st1')"
    by (cases "fields_3D_step sim nf freq F st'")
  from fields_3D_step_indep [OF Cons.prems, of sim nf freq F] s1 s1'
  have r: "r = r'" and m: "model st1 = model st1'" and a: "Ainv st1 = Ainv st1'" by simp_all
  show ?case
  proof (cases r)
    case (Inl e)
    then show ?thesis using p s1 s1' r m a by simp
  next
    case (Inr F1)
    then show ?thesis using p s1 s1' r Cons.IH [OF m a, of F1] by simp
  qed
qed

lemma fields_3D_indep_of_cache:
  "fst (fields_3D sim st mo) = fst (fields_3D sim (st\<lparr>Ainv := c\<rparr>) mo)
   \<and> model (snd (fields_3D sim st mo)) = model (snd (fields_3D sim (st\<lparr>Ainv := c\<rparr>) mo))
   \<and> Ainv (snd (fields_3D sim st mo)) = Ainv (snd (fields_3D sim (st\<lparr>Ainv := c\<rparr>) mo))"
  unfolding fields_3D_def Let_def
  by (rule fields_3D_loop_indep) (simp_all add: set_model_def split: option.splits)

lemma trace_fields_3D:
  "\<exists>j\<le>num_frequencies (survey sim). trace (snd (fields_3D sim st mo))
     = trace (release_Ainv sim (set_model mo st)) @ map Factorize [0..<j]"
  using trace_fields_3D_loop [of "frequencies (survey sim)" sim 0 "\<lambda>_. None"
      "(release_Ainv sim (set_model mo st))\<lparr>Ainv := Some (replicate (num_frequencies (survey sim)) None)\<rparr>"]
  by (simp add: fields_3D_def Let_def num_frequencies_def)


subsection \<open>The forward solve before the sensitivities\<close>

text \<open>
  In both simulations the forward solve \<^verbatim>\<open>fields(m)\<close> is what \<^verbatim>\<open>Jvec(m, v)\<close> and
  \<^verbatim>\<open>Jtvec(m, v)\<close> without fields run first: the state they leave is the one
  \<^verbatim>\<open>fields(m)\<close> leaves, and its model is \<open>m\<close>.
\<close>

lemma sensitivities_state_after_forward_solve:
  "snd (Jvec sim st m v None) = snd (fields sim st (Some m))
   \<and> snd (Jtvec sim st m v None) = snd (fields sim st (Some m))
   \<and> model (snd (Jvec sim st m v None)) = Some m
   \<and> model (snd (Jtvec sim st m v None)) = Some m"
proof -
  have upd: "st1\<lparr>model := Some m\<rparr> = st1" if "model st1 = Some m" for st1 :: sim_state
    using that by simp
  obtain r st1 where f: "fields_compute sim st (Some m) = (r, st1)"
    by (cases "fields_compute sim st (Some m)")
  have s: "snd (fields sim st (Some m)) = st1" using snd_fields_compute [of sim st "Some m"] f by simp
  have m1: "model st1 = Some m" using model_fields_compute [of sim st m] f by simp
  show ?thesis
    using upd [OF m1] m1 s by (cases r) (simp_all add: Jvec_def Jtvec_def f Let_def)
qed

text \<open>
  The 3-D simulation, whose \<^verbatim>\<open>fields\<close> is delayed: the two calls without fields are
  \<^verbatim>\<open>fields(m)\<close> followed by the same call with the fields it returned, or the exception
  of \<^verbatim>\<open>fields(m)\<close>.
\<close>

lemma sensitivities_run_forward_solve_3D:
  assumes "variant sim = Simulation3DPrimarySecondary"
  shows "Jvec sim st m v None =
      (case fields sim st (Some m) of
         (Inl e, st1) \<Rightarrow> (Inl e, st1)
       | (Inr f, st1) \<Rightarrow> Jvec sim st1 m v (Some f))
   \<and> Jtvec sim st m v None =
      (case fields sim st (Some m) of
         (Inl e, st1) \<Rightarrow> (Inl e, st1)
       | (Inr f, st1) \<Rightarrow> Jtvec sim st1 m v (Some f))"
proof -
  have upd: "st1\<lparr>model := Some m\<rparr> = st1" if "model st1 = Some m" for st1 :: sim_state
    using that by simp
  obtain r st1 where f: "fields sim st (Some m) = (r, st1)" by (cases "fields sim st (Some m)")
  have m1: "model st1 = Some m" using model_fields [of sim st m] f by simp
  show ?thesis
    using upd [OF m1] m1
    by (cases r) (simp_all add: Jvec_def Jtvec_def fields_compute_3D [OF assms] f Let_def)
qed


subsection \<open>The example simulation, evaluated\<close>

lemma one_plus_i_nz: "1 + \<i> \<noteq> 0"
  by (simp add: complex_eq_iff)

lemma inv_one_plus_i: "1 / (1 + \<i>) = (1 - \<i>) / 2"
  by (simp add: complex_eq_iff Re_divide Im_divide power2_eq_square)

lemma div_one_plus_i: "z / (1 + \<i>) = z * (1 - \<i>) / 2"
proof -
  have "z / (1 + \<i>) = z * (1 / (1 + \<i>))" by simp
  also have "\<dots> = z * ((1 - \<i>) / 2)" by (simp only: inv_one_plus_i)
  finally show ?thesis by simp
qed

lemma omega_ex: "omega freq_ex = 1"
  by (simp add: omega_def freq_ex_def)

lemma survey_ex_simps:
  "frequencies survey_ex = [freq_ex]"
  "get_sources_by_frequency survey_ex freq_ex = [src_ex]"
  "first_source survey_ex freq_ex = Inr src_ex"
  "num_frequencies survey_ex = Suc 0"
  "survey_receivers survey_ex = [rx_real, rx_imag]"
  "nD survey_ex = 2"
  by (simp_all add: survey_ex_def first_source_def num_frequencies_def survey_receivers_def
      nD_def src_ex_def rx_real_def rx_imag_def)

lemma src_ex_simps:
  "src_id src_ex = 0"
  "receiver_list src_ex = [rx_real, rx_imag]"
  "S_e src_ex m = Arr2 [(1, \<i>)]"
  "S_eDeriv src_ex m v False = Arr2 [(v ! 0, 2 * v ! 0)]"
  "S_eDeriv src_ex m v True = Vec [v ! 0 + 2 * v ! 1]"
  by (simp_all add: src_ex_def)

lemma rx_ex_simps:
  "component rx_real = ''real''" "rx_nD rx_real = Suc 0"
  "evalDeriv rx_real f x = [Re (x ! 0)]"
  "evalDeriv_adjoint rx_real f y = Arr2 [(complex_of_real (y ! 0), 0)]"
  "component rx_imag = ''imag''" "rx_nD rx_imag = Suc 0"
  "evalDeriv rx_imag f x = [Im (x ! 1)]"
  "evalDeriv_adjoint rx_imag f y = Arr2 [(0, \<i> * complex_of_real (y ! 0))]"
  by (simp_all add: rx_real_def rx_imag_def)

lemma sim3D_ex_simps:
  "variant sim3D_ex = Simulation3DPrimarySecondary"
  "nE sim3D_ex = Suc 0"
  "survey sim3D_ex = survey_ex"
  "Solver sim3D_ex = Solver_direct"
  "edgeCurl sim3D_ex = CMat 1 1 (\<lambda>i j. 1)"
  "MfMui sim3D_ex = CMat 1 1 (\<lambda>i j. 1)"
  "MeSigma sim3D_ex m = CMat 1 1 (\<lambda>i j. complex_of_real (m ! 0))"
  "MeSigmaDeriv_mat sim3D_ex m u = CMat (Suc 0) (Suc 0) (\<lambda>i j. u ! 0)"
  by (simp_all add: sim3D_ex_def)

lemma fields_compute_ex: "fields_compute sim3D_ex st mo = fields sim3D_ex st mo"
  by (simp add: fields_compute_def fields_def sim3D_ex_simps)

lemma getA_3D_ex: "getA_3D sim3D_ex [1] freq_ex = Inr (CMat (Suc 0) (Suc 0) (\<lambda>i j. 1 + \<i>))"
  by (simp add: getA_3D_def sim3D_ex_simps omega_ex mat_mul_def mat_T_def mat_add_def mat_scale_def)

lemma Solver_ex: "Solver_direct (CMat (Suc 0) (Suc 0) (\<lambda>i j. 1 + \<i>)) = Inr h_ex"
  by (simp add: Solver_direct_def h_ex_def one_plus_i_nz)

lemma solver_mul_h_ex:
  "solver_mul h_ex (Arr2 [(a, b)]) = Inr (Arr2 [(a * (1 - \<i>) / 2, b * (1 - \<i>) / 2)])"
  by (simp add: h_ex_def solver_mat_def mat_vec_def row_dot_def div_one_plus_i)

lemma e_s_ex: "- (\<i> * (1 - \<i>) / 2) = (- 1 - \<i>) / 2"
  by (simp add: complex_eq_iff)

lemma sim_state_upd_eq:
  "st\<lparr>trace := t, Ainv := a\<rparr> = \<lparr>model = model st, Ainv = a, trace = t\<rparr>"
  by (cases st) simp

lemma fields_3D_ex:
  "fields_3D sim3D_ex st (Some [1]) =
     (Inr F_ex, \<lparr>model = Some [1], Ainv = Some [Some h_ex],
        trace = trace (release_Ainv sim3D_ex (set_model (Some [1]) st)) @ [Factorize 0]\<rparr>)"
  by (simp add: fields_3D_def fields_3D_step_def sim3D_ex_simps survey_ex_simps
      src_ex_simps set_model_def current_model_def getA_3D_ex
      getRHS_3D_def omega_ex Solver_ex solver_mul_h_ex log_event_def store_Ainv_def F_ex_def
      enumerate_eq_zip e_s_ex Let_def sim_state_upd_eq del: solver_mul.simps)

lemma fields_ex_new: "fields sim3D_ex st_new (Some [1]) = (Inr F_ex, st_cached)"
  by (simp add: fields_def sim3D_ex_simps fields_3D_ex st_cached_def st_new_def release_Ainv_def
      set_model_def)

lemma fields_ex_cached:
  "fields sim3D_ex st_cached (Some [1]) =
     (Inr F_ex, \<lparr>model = Some [1], Ainv = Some [Some h_ex],
        trace = [Factorize 0, Clean 0, Factorize 0]\<rparr>)"
  by (simp add: fields_def sim3D_ex_simps fields_3D_ex st_cached_def release_Ainv_def
      set_model_def survey_ex_simps log_event_def h_ex_def)

lemma fields_ex_stuck:
  "fields_3D sim3D_ex st_stuck (Some [1]) =
     (Inr F_ex, \<lparr>model = Some [1], Ainv = Some [Some h_ex], trace = [Factorize 0]\<rparr>)"
  by (simp add: sim3D_ex_simps fields_3D_ex st_stuck_def release_Ainv_def
      set_model_def survey_ex_simps log_event_def h_ex_def)

lemma Jvec_du_dm_v_ex:
  "Jvec_du_dm_v sim3D_ex st_cached [1] [1] F_ex 0 freq_ex src_ex
     = Inr (Arr2 [(- 1 / 2, - 3 / 2 - \<i>)])"
  by (simp add: Jvec_du_dm_v_def st_cached_def
      sim3D_ex_simps survey_ex_simps src_ex_simps rx_ex_simps fields_get_def F_ex_def
      getADeriv_def getADeriv_3D_def MeSigmaDeriv_def mat_vec_def row_dot_def hstack2_def
      getRHSDeriv_def getRHSDeriv_3D_def omega_ex get_Ainv_slot_def slot_mul_def
      solver_mul_h_ex complex_eq_iff del: solver_mul.simps)

subsection \<open>The 1-D simulation without precomputed fields\<close>









subsection \<open>Release of the previous factorizations\<close>

text \<open>
  C6, as the code has it. When every slot of the previous cache holds a factorization
  whose \<^verbatim>\<open>clean()\<close> returns, the 3-D \<^verbatim>\<open>fields\<close> releases every one of them, in the order
  of the slots, before it factorizes anything. Whatever the release raises is discarded:
  what \<^verbatim>\<open>fields\<close> returns or raises, and the cache it leaves, do not depend on the
  cache it found.
\<close>

theorem fields_3D_release:
  "(Ainv st = Some slots \<and> slots \<noteq> [] \<and> length slots = num_frequencies (survey sim)
      \<and> (\<forall>s\<in>set slots. \<exists>h. s = Some h \<and> s_clean h)
    \<longrightarrow> (\<exists>j\<le>num_frequencies (survey sim).
          trace (snd (fields_3D sim st mo))
            = trace st @ map Clean [0..<num_frequencies (survey sim)] @ map Factorize [0..<j]))
   \<and> fst (fields_3D sim st mo) = fst (fields_3D sim (st\<lparr>Ainv := None\<rparr>) mo)
   \<and> Ainv (snd (fields_3D sim st mo)) = Ainv (snd (fields_3D sim (st\<lparr>Ainv := None\<rparr>) mo))"
proof (intro conjI impI)
  assume a: "Ainv st = Some slots \<and> slots \<noteq> [] \<and> length slots = num_frequencies (survey sim)
      \<and> (\<forall>s\<in>set slots. \<exists>h. s = Some h \<and> s_clean h)"
  then have "Ainv (set_model mo st) = Some slots" by simp
  from release_Ainv_all [OF this] a
  have "trace (release_Ainv sim (set_model mo st))
      = trace st @ map Clean [0..<num_frequencies (survey sim)]"
    by simp
  with trace_fields_3D [of sim st mo]
  show "\<exists>j\<le>num_frequencies (survey sim).
          trace (snd (fields_3D sim st mo))
            = trace st @ map Clean [0..<num_frequencies (survey sim)] @ map Factorize [0..<j]"
    by auto
next
  show "fst (fields_3D sim st mo) = fst (fields_3D sim (st\<lparr>Ainv := None\<rparr>) mo)"
    using fields_3D_indep_of_cache by blast
next
  show "Ainv (snd (fields_3D sim st mo)) = Ainv (snd (fields_3D sim (st\<lparr>Ainv := None\<rparr>) mo))"
    using fields_3D_indep_of_cache by blast
qed

text \<open>
  The example simulation, solved a second time: the factorization of the first solve is
  released, then a new one is built.
\<close>

theorem fields_3D_release_witness:
  "(\<exists>j\<le>1. trace (snd (fields_3D sim3D_ex st_cached (Some [1])))
        = [Factorize 0] @ map Clean [0..<1] @ map Factorize [0..<j])
   \<and> trace (snd (fields_3D sim3D_ex st_cached (Some [1]))) = [Factorize 0, Clean 0, Factorize 0]
   \<and> fst (fields_3D sim3D_ex st_cached (Some [1]))
        = fst (fields_3D sim3D_ex (st_cached\<lparr>Ainv := None\<rparr>) (Some [1]))"
proof -
  have pre: "Ainv st_cached = Some [Some h_ex] \<and> [Some h_ex] \<noteq> []
      \<and> length [Some h_ex] = num_frequencies (survey sim3D_ex)
      \<and> (\<forall>s\<in>set [Some h_ex]. \<exists>h. s = Some h \<and> s_clean h)"
    by (simp add: st_cached_def sim3D_ex_simps survey_ex_simps h_ex_def)
  have tr: "trace st_cached = [Factorize 0]" by (simp add: st_cached_def)
  have n: "num_frequencies (survey sim3D_ex) = 1" by (simp add: sim3D_ex_simps survey_ex_simps)
  note inst = fields_3D_release [of st_cached "[Some h_ex]" sim3D_ex "Some [1]"]
  have "\<exists>j\<le>1. trace (snd (fields_3D sim3D_ex st_cached (Some [1])))
        = [Factorize 0] @ map Clean [0..<1] @ map Factorize [0..<j]"
    using inst pre unfolding tr n by blast
  moreover have "trace (snd (fields_3D sim3D_ex st_cached (Some [1])))
      = [Factorize 0, Clean 0, Factorize 0]"
    using fields_ex_cached by (simp add: fields_def sim3D_ex_simps)
  moreover have "fst (fields_3D sim3D_ex st_cached (Some [1]))
        = fst (fields_3D sim3D_ex (st_cached\<lparr>Ainv := None\<rparr>) (Some [1]))"
    using inst by blast
  ultimately show ?thesis by blast
qed

text \<open>
  The cached factorization of \<open>st_stuck\<close> raises when it is released. The forward solve
  returns the fields all the same, and the trace shows no release: the exception went
  nowhere.
\<close>

theorem fields_3D_release_failure_discarded:
  "fields_3D sim3D_ex st_stuck (Some [1]) =
     (Inr F_ex, \<lparr>model = Some [1], Ainv = Some [Some h_ex], trace = [Factorize 0]\<rparr>)"
  by (rule fields_ex_stuck)

subsection \<open>Reuse of the cached factorizations\<close>

lemma fields_3D_cache:
  assumes "fields_3D sim st (Some m) = (Inr f, st1)"
  shows "trace st1 = trace (release_Ainv sim (set_model (Some m) st))
            @ map Factorize [0..<num_frequencies (survey sim)]
    \<and> (\<forall>nF<num_frequencies (survey sim). \<exists>A h.
          getA_3D sim m (frequencies (survey sim) ! nF) = Inr A \<and> Solver sim A = Inr h
          \<and> get_Ainv_slot st1 nF = Inr (Some h))"
proof -
  let ?n = "num_frequencies (survey sim)"
  let ?st3 = "(release_Ainv sim (set_model (Some m) st))\<lparr>Ainv := Some (replicate ?n None)\<rparr>"
  have loop: "fields_3D_loop sim (enumerate 0 (frequencies (survey sim))) (\<lambda>_. None) ?st3
      = (Inr f, st1)"
    using assms by (simp add: fields_3D_def Let_def)
  have a: "Ainv ?st3 = Some (replicate ?n None)" by simp
  have l: "0 + length (frequencies (survey sim)) \<le> length (replicate ?n (None :: solver option))"
    by (simp add: num_frequencies_def)
  have m: "model ?st3 = Some m" by (simp add: set_model_def)
  from fields_3D_loop_cache [OF loop a l m] obtain slots' where
    s1: "Ainv st1 = Some slots'" and s2: "length slots' = ?n"
    and s4: "\<forall>j<length (frequencies (survey sim)). \<exists>A h.
        getA_3D sim m (frequencies (survey sim) ! j) = Inr A \<and> Solver sim A = Inr h
        \<and> slots' ! (0 + j) = Some h"
    and s5: "trace st1 = trace ?st3 @ map Factorize [0..<0 + length (frequencies (survey sim))]"
    by auto
  have "trace st1 = trace (release_Ainv sim (set_model (Some m) st)) @ map Factorize [0..<?n]"
    using s5 by (simp add: num_frequencies_def)
  moreover have "\<exists>A h. getA_3D sim m (frequencies (survey sim) ! nF) = Inr A
      \<and> Solver sim A = Inr h \<and> get_Ainv_slot st1 nF = Inr (Some h)" if "nF < ?n" for nF
    using s4 s1 s2 that by (auto simp: get_Ainv_slot_def num_frequencies_def)
  ultimately show ?thesis by blast
qed

lemma Jvec_du_dm_v_formula:
  assumes "get_Ainv_slot st nF = Inr (Some h)" "fields_get f src = Inr u"
    and "getADeriv sim m freq u (map complex_of_real v) False = Inr dA_dm_v"
    and "getRHSDeriv sim m freq (map complex_of_real v) False = Inr dRHS_dm_v"
  shows "Jvec_du_dm_v sim st m v f nF freq src
    = bindE (nd_add (nd_neg dA_dm_v) dRHS_dm_v) (solver_mul h)"
  using assms by (simp add: Jvec_du_dm_v_def slot_mul_def)

text \<open>
  C3, as the code has it. \<^verbatim>\<open>Jvec\<close> given the fields changes nothing of the simulation
  but the model: it factorizes nothing and releases nothing. After a 3-D \<^verbatim>\<open>fields(m)\<close>
  that returned, every frequency has been factorized once, the cache holds for every
  frequency the factorization of its system matrix, and \<^verbatim>\<open>Jvec\<close> given those fields
  leaves the state as it is. The field perturbation is the product of the cached
  factorization with \<open>- dA_dm_v + dRHS_dm_v\<close>.
\<close>

theorem Jvec_reuses_cached_factorization:
  "snd (Jvec sim st m v (Some f)) = st\<lparr>model := Some m\<rparr>
   \<and> (fields_3D sim st (Some m) = (Inr f, st1) \<longrightarrow>
        snd (Jvec sim st1 m v (Some f)) = st1
        \<and> trace st1 = trace (release_Ainv sim (set_model (Some m) st))
            @ map Factorize [0..<num_frequencies (survey sim)]
        \<and> (\<forall>nF<num_frequencies (survey sim). \<exists>A h.
              getA_3D sim m (frequencies (survey sim) ! nF) = Inr A \<and> Solver sim A = Inr h
              \<and> get_Ainv_slot st1 nF = Inr (Some h)))
   \<and> (get_Ainv_slot st nF = Inr (Some h) \<and> fields_get f src = Inr u
        \<and> getADeriv sim m freq u (map complex_of_real v) False = Inr dA_dm_v
        \<and> getRHSDeriv sim m freq (map complex_of_real v) False = Inr dRHS_dm_v
      \<longrightarrow> Jvec_du_dm_v sim st m v f nF freq src
            = bindE (nd_add (nd_neg dA_dm_v) dRHS_dm_v) (solver_mul h))"
proof (intro conjI impI)
  show "snd (Jvec sim st m v (Some f)) = st\<lparr>model := Some m\<rparr>"
    by (rule Jvec_given_fields)
next
  assume f: "fields_3D sim st (Some m) = (Inr f, st1)"
  have "model (snd (fields_3D sim st (Some m))) = Some m"
    by (simp add: fields_3D_def Let_def model_fields_3D_loop set_model_def)
  then have "model st1 = Some m"
    using f by simp
  then show "snd (Jvec sim st1 m v (Some f)) = st1"
    by (simp add: Jvec_given_fields)
  show "trace st1 = trace (release_Ainv sim (set_model (Some m) st))
            @ map Factorize [0..<num_frequencies (survey sim)]"
    using fields_3D_cache [OF f] by blast
  show "\<forall>nF<num_frequencies (survey sim). \<exists>A h.
          getA_3D sim m (frequencies (survey sim) ! nF) = Inr A \<and> Solver sim A = Inr h
          \<and> get_Ainv_slot st1 nF = Inr (Some h)"
    using fields_3D_cache [OF f] by blast
next
  assume "get_Ainv_slot st nF = Inr (Some h) \<and> fields_get f src = Inr u
        \<and> getADeriv sim m freq u (map complex_of_real v) False = Inr dA_dm_v
        \<and> getRHSDeriv sim m freq (map complex_of_real v) False = Inr dRHS_dm_v"
  then show "Jvec_du_dm_v sim st m v f nF freq src
            = bindE (nd_add (nd_neg dA_dm_v) dRHS_dm_v) (solver_mul h)"
    using Jvec_du_dm_v_formula by blast
qed

text \<open>
  The example simulation: a forward solve, then \<^verbatim>\<open>Jvec\<close> with the fields it returned.
\<close>

theorem Jvec_reuses_cached_factorization_witness:
  "fields_3D sim3D_ex st_new (Some [1]) = (Inr F_ex, st_cached)
   \<and> snd (Jvec sim3D_ex st_cached [1] [1] (Some F_ex)) = st_cached
   \<and> trace st_cached = [Factorize 0]
   \<and> get_Ainv_slot st_cached 0 = Inr (Some h_ex)
   \<and> Jvec_du_dm_v sim3D_ex st_cached [1] [1] F_ex 0 freq_ex src_ex
        = Inr (Arr2 [(- 1 / 2, - 3 / 2 - \<i>)])"
proof -
  have f: "fields_3D sim3D_ex st_new (Some [1]) = (Inr F_ex, st_cached)"
    using fields_ex_new by (simp add: fields_def sim3D_ex_simps)
  note inst = Jvec_reuses_cached_factorization [of sim3D_ex st_new "[1]" "[1]" F_ex st_cached]
  have "snd (Jvec sim3D_ex st_cached [1] [1] (Some F_ex)) = st_cached"
    using inst f by blast
  moreover have "trace st_cached = [Factorize 0]" by (simp add: st_cached_def)
  moreover have "get_Ainv_slot st_cached 0 = Inr (Some h_ex)"
    by (simp add: st_cached_def get_Ainv_slot_def)
  ultimately show ?thesis using f Jvec_du_dm_v_ex by blast
qed

text \<open>
  \<^verbatim>\<open>fields(m)\<close> followed by \<^verbatim>\<open>Jvec(m, v)\<close> without the fields: the forward solve runs
  again, the factorization of the first solve is released and the same frequency is
  factorized a second time.
\<close>

theorem Jvec_without_fields_factorizes_again:
  "trace (snd (Jvec sim3D_ex (snd (fields sim3D_ex st_new (Some [1]))) [1] [1] None))
     = [Factorize 0, Clean 0, Factorize 0]"
  by (simp add: fields_ex_new Jvec_def fields_compute_ex fields_ex_cached Let_def)

subsection \<open>The adjoint solve\<close>

lemma mat_vec_T_symmetric:
  assumes "nrow A = ncol A" "\<forall>i<nrow A. \<forall>j<nrow A. entry A i j = entry A j i"
  shows "mat_vec (mat_T A) y = mat_vec A y"
proof -
  have "row_dot (mat_T A) y i = row_dot A y i" if "i < nrow A" for i
    unfolding row_dot_def mat_T_def using assms that
    by (auto intro!: arg_cong [where f = sum_list] map_cong)
  then have "map (row_dot (mat_T A) y) [0..<nrow A] = map (row_dot A y) [0..<nrow A]"
    by (auto intro!: map_cong)
  then show ?thesis using assms(1) by (simp add: mat_vec_def mat_T_def)
qed

lemma Jtvec_dA_duIT_solves:
  assumes slot: "get_Ainv_slot st nF = Inr (Some h)"
    and len: "length rows = s_size h"
    and solves: "\<forall>x. length x = s_size h \<longrightarrow>
      mat_vec A (map (row_dot (solver_mat h) x) [0..<s_size h]) = Inr x"
  shows "\<exists>y0 y1. Jtvec_dA_duIT sim st nF (Arr2 rows) = Inr (y0 @ y1)
      \<and> mat_vec A y0 = Inr (map fst rows) \<and> mat_vec A y1 = Inr (map snd rows)"
proof -
  let ?a = "map (row_dot (solver_mat h) (map fst rows)) [0..<s_size h]"
  let ?b = "map (row_dot (solver_mat h) (map snd rows)) [0..<s_size h]"
  have "Jtvec_dA_duIT sim st nF (Arr2 rows) = Inr (?a @ ?b)"
    using slot len by (simp add: Jtvec_dA_duIT_def slot_mul_def mat_vec_def solver_mat_def)
  moreover have "mat_vec A ?a = Inr (map fst rows)" using solves len by simp
  moreover have "mat_vec A ?b = Inr (map snd rows)" using solves len by simp
  ultimately show ?thesis by blast
qed


text \<open>
  C2, as the code has it. \<^verbatim>\<open>dA_duIT\<close> is the product of the cached factorization itself
  with the summed contribution, one solve per polarization, flattened. When the
  factorization solves the system \<open>A\<close>, each half \<open>y\<close> of \<^verbatim>\<open>dA_duIT\<close> solves the forward
  system \<open>A y = PTv\<close> for its polarization; when \<open>A\<close> is symmetric, that is also the
  transposed system. No conjugate is taken.
\<close>

theorem Jtvec_applies_forward_factorization:
  "(get_Ainv_slot st nF = Inr (Some h) \<longrightarrow>
      Jtvec_dA_duIT sim st nF PTv = bindE (solver_mul h PTv) (\<lambda>x. Inr (mkvc x)))
   \<and> (get_Ainv_slot st nF = Inr (Some h) \<and> length rows = s_size h
        \<and> (\<forall>x. length x = s_size h \<longrightarrow>
              mat_vec A (map (row_dot (solver_mat h) x) [0..<s_size h]) = Inr x)
      \<longrightarrow> (\<exists>y0 y1. Jtvec_dA_duIT sim st nF (Arr2 rows) = Inr (y0 @ y1)
            \<and> mat_vec A y0 = Inr (map fst rows) \<and> mat_vec A y1 = Inr (map snd rows)
            \<and> (nrow A = ncol A \<and> (\<forall>i<nrow A. \<forall>j<nrow A. entry A i j = entry A j i)
                \<longrightarrow> mat_vec (mat_T A) y0 = Inr (map fst rows)
                    \<and> mat_vec (mat_T A) y1 = Inr (map snd rows))))"
proof (intro conjI impI)
  assume "get_Ainv_slot st nF = Inr (Some h)"
  then show "Jtvec_dA_duIT sim st nF PTv = bindE (solver_mul h PTv) (\<lambda>x. Inr (mkvc x))"
    by (simp add: Jtvec_dA_duIT_def slot_mul_def)
next
  assume a: "get_Ainv_slot st nF = Inr (Some h) \<and> length rows = s_size h
        \<and> (\<forall>x. length x = s_size h \<longrightarrow>
              mat_vec A (map (row_dot (solver_mat h) x) [0..<s_size h]) = Inr x)"
  then obtain y0 y1 where y: "Jtvec_dA_duIT sim st nF (Arr2 rows) = Inr (y0 @ y1)"
    "mat_vec A y0 = Inr (map fst rows)" "mat_vec A y1 = Inr (map snd rows)"
    using Jtvec_dA_duIT_solves [of st nF h rows A sim] by blast
  have "mat_vec (mat_T A) y0 = Inr (map fst rows) \<and> mat_vec (mat_T A) y1 = Inr (map snd rows)"
    if "nrow A = ncol A \<and> (\<forall>i<nrow A. \<forall>j<nrow A. entry A i j = entry A j i)"
    using that y mat_vec_T_symmetric [of A] by simp
  with y show "\<exists>y0 y1. Jtvec_dA_duIT sim st nF (Arr2 rows) = Inr (y0 @ y1)
            \<and> mat_vec A y0 = Inr (map fst rows) \<and> mat_vec A y1 = Inr (map snd rows)
            \<and> (nrow A = ncol A \<and> (\<forall>i<nrow A. \<forall>j<nrow A. entry A i j = entry A j i)
                \<longrightarrow> mat_vec (mat_T A) y0 = Inr (map fst rows)
                    \<and> mat_vec (mat_T A) y1 = Inr (map snd rows))"
    by blast
qed

lemma getA_3D_ex_A_ex: "getA_3D sim3D_ex [1] freq_ex = Inr A_ex"
  by (simp add: getA_3D_ex A_ex_def)

lemma h_ex_solves_A_ex:
  "\<forall>x. length x = s_size h_ex \<longrightarrow>
     mat_vec A_ex (map (row_dot (solver_mat h_ex) x) [0..<s_size h_ex]) = Inr x"
proof (intro allI impI)
  fix x :: cvec
  assume "length x = s_size h_ex"
  then obtain a where x: "x = [a]" by (cases x) (auto simp: h_ex_def)
  show "mat_vec A_ex (map (row_dot (solver_mat h_ex) x) [0..<s_size h_ex]) = Inr x"
    by (simp add: x h_ex_def A_ex_def solver_mat_def mat_vec_def row_dot_def one_plus_i_nz)
qed

lemma Jtvec_dA_duIT_ex:
  "Jtvec_dA_duIT sim3D_ex st_cached 0 (Arr2 [(1, 0)]) = Inr [(1 - \<i>) / 2, 0]"
  by (simp add: Jtvec_dA_duIT_def st_cached_def get_Ainv_slot_def slot_mul_def solver_mul_h_ex
      del: solver_mul.simps)

text \<open>
  The example simulation after its forward solve, with the contribution \<open>(1, 0)\<close>.
\<close>

theorem Jtvec_applies_forward_factorization_witness:
  "Jtvec_dA_duIT sim3D_ex st_cached 0 (Arr2 [(1, 0)]) = Inr [(1 - \<i>) / 2, 0]
   \<and> (\<exists>y0 y1. Jtvec_dA_duIT sim3D_ex st_cached 0 (Arr2 [(1, 0)]) = Inr (y0 @ y1)
        \<and> mat_vec A_ex y0 = Inr [1] \<and> mat_vec A_ex y1 = Inr [0]
        \<and> mat_vec (mat_T A_ex) y0 = Inr [1] \<and> mat_vec (mat_T A_ex) y1 = Inr [0])"
proof -
  have slot: "get_Ainv_slot st_cached 0 = Inr (Some h_ex)"
    by (simp add: st_cached_def get_Ainv_slot_def)
  have len: "length [(1, 0) :: complex \<times> complex] = s_size h_ex" by (simp add: h_ex_def)
  have sym: "nrow A_ex = ncol A_ex \<and> (\<forall>i<nrow A_ex. \<forall>j<nrow A_ex. entry A_ex i j = entry A_ex j i)"
    by (simp add: A_ex_def)
  from Jtvec_applies_forward_factorization [of st_cached 0 h_ex sim3D_ex "Arr2 [(1, 0)]"
      "[(1, 0)]" A_ex] slot len h_ex_solves_A_ex sym
  have "\<exists>y0 y1. Jtvec_dA_duIT sim3D_ex st_cached 0 (Arr2 [(1, 0)]) = Inr (y0 @ y1)
        \<and> mat_vec A_ex y0 = Inr (map fst [(1, 0) :: complex \<times> complex])
        \<and> mat_vec A_ex y1 = Inr (map snd [(1, 0) :: complex \<times> complex])
        \<and> mat_vec (mat_T A_ex) y0 = Inr (map fst [(1, 0) :: complex \<times> complex])
        \<and> mat_vec (mat_T A_ex) y1 = Inr (map snd [(1, 0) :: complex \<times> complex])"
    by blast
  then have "\<exists>y0 y1. Jtvec_dA_duIT sim3D_ex st_cached 0 (Arr2 [(1, 0)]) = Inr (y0 @ y1)
        \<and> mat_vec A_ex y0 = Inr [1] \<and> mat_vec A_ex y1 = Inr [0]
        \<and> mat_vec (mat_T A_ex) y0 = Inr [1] \<and> mat_vec (mat_T A_ex) y1 = Inr [0]"
    by simp
  with Jtvec_dA_duIT_ex show ?thesis by blast
qed

text \<open>
  The same call against the conjugate transpose: the half \<open>(1 - \<i>) / 2\<close> that the code
  computes for the contribution 1 solves \<open>A y = 1\<close>, and the conjugate transpose of \<open>A\<close>
  takes it to \<open>- \<i>\<close>, not to 1.
\<close>

theorem Jtvec_solve_not_conjugate_transpose:
  "getA_3D sim3D_ex [1] freq_ex = Inr A_ex
   \<and> Jtvec_dA_duIT sim3D_ex st_cached 0 (Arr2 [(1, 0)]) = Inr [(1 - \<i>) / 2, 0]
   \<and> mat_vec A_ex [(1 - \<i>) / 2] = Inr [1]
   \<and> mat_vec (mat_H A_ex) [(1 - \<i>) / 2] = Inr [- \<i>]
   \<and> mat_vec (mat_H A_ex) [(1 - \<i>) / 2] \<noteq> Inr [1]"
  by (simp add: getA_3D_ex_A_ex Jtvec_dA_duIT_ex)
    (simp add: A_ex_def mat_H_def mat_vec_def row_dot_def complex_eq_iff)

subsection \<open>The shapes of the adjoint recursion\<close>

lemma nd_add_Arr2_shape:
  "nd_add (Arr2 r) X = Inr Y \<Longrightarrow> \<exists>r'. Y = Arr2 r' \<and> length r' = length r"
  by (cases X) (auto split: if_splits)

lemma Jtvec_rx_shape:
  "Jtvec_rx f rx y (Arr2 r) = Inr Y \<Longrightarrow> \<exists>r'. Y = Arr2 r' \<and> length r' = length r"
  by (auto simp: Jtvec_rx_def dest: nd_add_Arr2_shape split: if_splits)

lemma Jtvec_rx_loop_shape:
  "Jtvec_rx_loop f rxs v (Arr2 r) = Inr (Y, rest) \<Longrightarrow> \<exists>r'. Y = Arr2 r' \<and> length r' = length r"
proof (induction rxs arbitrary: v r)
  case Nil
  then show ?case by auto
next
  case (Cons rx rxs)
  from Cons.prems obtain P where P: "Jtvec_rx f rx (take (rx_nD rx) v) (Arr2 r) = Inr P"
    and rest: "Jtvec_rx_loop f rxs (drop (rx_nD rx) v) P = Inr (Y, rest)"
    by (auto simp: bindE_eq_Inr)
  from Jtvec_rx_shape [OF P] obtain r1 where r1: "P = Arr2 r1" "length r1 = length r" by blast
  from Cons.IH [of "drop (rx_nD rx) v" r1] rest r1 show ?case by auto
qed

lemma solver_mul_Arr2_Inr:
  assumes "solver_mul h (Arr2 rows) = Inr x"
  shows "length rows = s_size h \<and> (\<exists>a b. x = Arr2 (zip a b) \<and> length a = s_size h
      \<and> length b = s_size h
      \<and> mat_vec (solver_mat h) (map fst rows) = Inr a
      \<and> mat_vec (solver_mat h) (map snd rows) = Inr b)"
  using assms
  by (auto simp: bindE_eq_Inr mat_vec_Inr solver_mat_def)


















subsection \<open>Adjoint consistency\<close>

text \<open>
  The products \<open>dot\<close> of the two sensitivity routines are compared level by level:
  receiver, source, frequency, whole survey. At each level the forward routine appends
  its block of data to what the outer loops produce, and the transposed routine consumes
  the matching entries of its data vector and hands the rest on.
\<close>

lemma dot_Nil [simp]: "dot [] y = 0" "dot x [] = 0"
  by (simp_all add: dot_def)

lemma dot_Cons [simp]: "dot (a # x) (b # y) = a * b + dot x y"
  by (simp add: dot_def)

lemma dot_commute: "dot x y = dot y x"
proof (induction x arbitrary: y)
  case Nil
  show ?case by simp
next
  case (Cons a x)
  then show ?case by (cases y) (simp_all add: mult.commute)
qed

lemma dot_add_right:
  "length a = length b \<Longrightarrow> dot y (map2 (+) a b) = dot y a + dot y b"
  using dot_add_left [of a b y] by (simp add: dot_commute)

lemma dot_uminus_left: "dot (map uminus x) y = - dot x (y :: 'a :: comm_ring list)"
proof (induction x arbitrary: y)
  case Nil
  show ?case by simp
next
  case (Cons a x)
  then show ?case by (cases y) simp_all
qed

lemma dot_uminus_right: "dot y (map uminus x) = - dot y (x :: 'a :: comm_ring list)"
  using dot_uminus_left [of x y] by (simp add: dot_commute)

lemma Re_dot_of_real: "Re (dot z (map complex_of_real v)) = dot (map Re z) v"
proof (induction z arbitrary: v)
  case Nil
  show ?case by simp
next
  case (Cons a z)
  then show ?case by (cases v) simp_all
qed

lemma dot_of_real_Re: "dot (map complex_of_real y) x = complex_of_real (dot y (map Re x)) + \<i> * complex_of_real (dot y (map Im x))"
proof (induction y arbitrary: x)
  case Nil
  show ?case by simp
next
  case (Cons a y)
  then show ?case by (cases x) (simp_all add: complex_eq_iff)
qed

lemma mkvc_nd_add:
  assumes "nd_add X Y = Inr Z"
  shows "mkvc Z = map2 (+) (mkvc X) (mkvc Y) \<and> length (mkvc X) = length (mkvc Y)"
proof (cases X)
  case (Vec a)
  then show ?thesis using assms by (cases Y) (auto split: if_splits)
next
  case (Arr2 r)
  then obtain s where Y: "Y = Arr2 s" and len: "length r = length s"
    and Z: "Z = Arr2 (map2 (\<lambda>(a, b) (c, d). (a + c, b + d)) r s)"
    using assms by (cases Y) (auto split: if_splits)
  have "map fst (map2 (\<lambda>(a, b) (c, d). (a + c, b + d)) r s) = map2 (+) (map fst r) (map fst s)
      \<and> map snd (map2 (\<lambda>(a, b) (c, d). (a + c, b + d)) r s) = map2 (+) (map snd r) (map snd s)"
    using len by (induction r s rule: list_induct2) auto
  then show ?thesis using Arr2 Y Z len by simp
qed

lemma solver_pairing:
  assumes sym: "\<forall>i<s_size h. \<forall>j<s_size h. s_inv h i j = s_inv h j i"
    and a: "mat_vec (solver_mat h) p = Inr a" and b: "mat_vec (solver_mat h) x = Inr b"
  shows "dot p b = dot a x"
proof -
  have "mat_vec (mat_T (solver_mat h)) p = mat_vec (solver_mat h) p"
    by (rule mat_vec_T_symmetric) (use sym in \<open>simp_all add: solver_mat_def\<close>)
  with a have "mat_vec (mat_T (solver_mat h)) p = Inr a" by simp
  from mat_vec_pairing [OF b this] show ?thesis .
qed

lemma solver_mul_pairing:
  assumes sym: "\<forall>i<s_size h. \<forall>j<s_size h. s_inv h i j = s_inv h j i"
    and P: "solver_mul h (Arr2 P) = Inr Y" and X: "solver_mul h (Arr2 xs) = Inr D"
  shows "dot (mkvc (Arr2 P)) (mkvc D) = dot (mkvc Y) (mkvc (Arr2 xs))"
proof -
  from solver_mul_Arr2_Inr [OF P] obtain a0 a1 where lp: "length P = s_size h"
    and Y: "Y = Arr2 (zip a0 a1)" and la: "length a0 = s_size h" "length a1 = s_size h"
    and a0: "mat_vec (solver_mat h) (map fst P) = Inr a0"
    and a1: "mat_vec (solver_mat h) (map snd P) = Inr a1" by blast
  from solver_mul_Arr2_Inr [OF X] obtain b0 b1 where lx: "length xs = s_size h"
    and D: "D = Arr2 (zip b0 b1)" and lb: "length b0 = s_size h" "length b1 = s_size h"
    and b0: "mat_vec (solver_mat h) (map fst xs) = Inr b0"
    and b1: "mat_vec (solver_mat h) (map snd xs) = Inr b1" by blast
  have "dot (mkvc (Arr2 P)) (mkvc D) = dot (map fst P) b0 + dot (map snd P) b1"
    unfolding D using lp lb by (simp add: dot_append)
  also have "\<dots> = dot a0 (map fst xs) + dot a1 (map snd xs)"
    using solver_pairing [OF sym a0 b0] solver_pairing [OF sym a1 b1] by simp
  also have "\<dots> = dot (mkvc Y) (mkvc (Arr2 xs))"
    unfolding Y using la lx by (simp add: dot_append)
  finally show ?thesis .
qed

lemma Jtvec_rx_pairing:
  assumes rx: "Jtvec_rx f rx y (Arr2 P0) = Inr P1"
    and contract: "dot y b = (if component rx = ''imag'' then - 1 else 1)
        * Re (dot (mkvc (evalDeriv_adjoint rx f y)) x)"
  shows "Re (dot (mkvc P1) x) - Re (dot (mkvc (Arr2 P0)) x) = dot y b"
proof -
  let ?adj = "evalDeriv_adjoint rx f y"
  consider (re) "component rx = ''real''" "nd_add (Arr2 P0) ?adj = Inr P1"
    | (im) "component rx = ''imag''" "nd_add (Arr2 P0) (nd_neg ?adj) = Inr P1"
    using rx by (auto simp: Jtvec_rx_def split: if_splits)
  then show ?thesis
  proof cases
    case re
    from mkvc_nd_add [OF re(2)]
    have "dot (mkvc P1) x = dot (mkvc (Arr2 P0)) x + dot (mkvc ?adj) x"
      by (simp only: dot_add_left)
    then show ?thesis using contract re(1) by simp
  next
    case im
    from mkvc_nd_add [OF im(2)]
    have "dot (mkvc P1) x = dot (mkvc (Arr2 P0)) x + dot (mkvc (nd_neg ?adj)) x"
      by (simp only: dot_add_left)
    then have "dot (mkvc P1) x = dot (mkvc (Arr2 P0)) x - dot (mkvc ?adj) x"
      by (simp add: mkvc_nd_neg dot_uminus_left)
    then show ?thesis using contract im(1) by simp
  qed
qed

lemma Jtvec_rx_loop_pairing:
  assumes loop: "Jtvec_rx_loop f rxs w (Arr2 P0) = Inr (PTv, rest)"
    and enough: "sum_list (map rx_nD rxs) \<le> length w"
    and contract: "\<forall>rx\<in>set rxs. length (evalDeriv rx f x) = rx_nD rx
        \<and> (\<forall>y. length y = rx_nD rx \<longrightarrow>
              dot y (evalDeriv rx f x) = (if component rx = ''imag'' then - 1 else 1)
                * Re (dot (mkvc (evalDeriv_adjoint rx f y)) x))"
  shows "dot w (concat (map (\<lambda>rx. evalDeriv rx f x) rxs) @ T)
      = Re (dot (mkvc PTv) x) - Re (dot (mkvc (Arr2 P0)) x) + dot rest T
    \<and> length rest = length w - sum_list (map rx_nD rxs)"
  using loop enough contract
proof (induction rxs arbitrary: w P0)
  case Nil
  then show ?case by simp
next
  case (Cons rx rxs)
  let ?n1 = "rx_nD rx"
  let ?y = "take ?n1 w"
  let ?w' = "drop ?n1 w"
  let ?b = "evalDeriv rx f x"
  from Cons.prems(1) obtain P1 where P1: "Jtvec_rx f rx ?y (Arr2 P0) = Inr P1"
    and rest: "Jtvec_rx_loop f rxs ?w' P1 = Inr (PTv, rest)"
    by (auto simp: bindE_eq_Inr)
  from Jtvec_rx_shape [OF P1] obtain P1' where P1': "P1 = Arr2 P1'" by blast
  have n1: "?n1 \<le> length w" using Cons.prems(2) by simp
  then have ly: "length ?y = ?n1" by simp
  have lb: "length ?b = ?n1" using Cons.prems(3) by simp
  have c: "dot ?y ?b = (if component rx = ''imag'' then - 1 else 1)
        * Re (dot (mkvc (evalDeriv_adjoint rx f ?y)) x)"
    using Cons.prems(3) ly by simp
  have step: "Re (dot (mkvc P1) x) - Re (dot (mkvc (Arr2 P0)) x) = dot ?y ?b"
    using Jtvec_rx_pairing [OF P1 c] .
  have enough': "sum_list (map rx_nD rxs) \<le> length ?w'" using Cons.prems(2) by simp
  have contract': "\<forall>rx\<in>set rxs. length (evalDeriv rx f x) = rx_nD rx
        \<and> (\<forall>y. length y = rx_nD rx \<longrightarrow>
              dot y (evalDeriv rx f x) = (if component rx = ''imag'' then - 1 else 1)
                * Re (dot (mkvc (evalDeriv_adjoint rx f y)) x))"
    using Cons.prems(3) by simp
  from Cons.IH [OF rest [unfolded P1'] enough' contract']
  have ih: "dot ?w' (concat (map (\<lambda>rx. evalDeriv rx f x) rxs) @ T)
      = Re (dot (mkvc PTv) x) - Re (dot (mkvc P1) x) + dot rest T"
    and lr: "length rest = length ?w' - sum_list (map rx_nD rxs)"
    by (simp_all add: P1')
  have "dot w (concat (map (\<lambda>rx. evalDeriv rx f x) (rx # rxs)) @ T)
      = dot (?y @ ?w') (?b @ (concat (map (\<lambda>rx. evalDeriv rx f x) rxs) @ T))"
    by simp
  also have "\<dots> = dot ?y ?b + dot ?w' (concat (map (\<lambda>rx. evalDeriv rx f x) rxs) @ T)"
    using ly lb by (subst dot_append) simp_all
  also have "\<dots> = Re (dot (mkvc PTv) x) - Re (dot (mkvc (Arr2 P0)) x) + dot rest T"
    using step ih by simp
  finally have main: "dot w (concat (map (\<lambda>rx. evalDeriv rx f x) (rx # rxs)) @ T)
      = Re (dot (mkvc PTv) x) - Re (dot (mkvc (Arr2 P0)) x) + dot rest T" .
  have "length rest = length w - sum_list (map rx_nD (rx # rxs))" using lr by simp
  with main show ?case by blast
qed

lemma dot_replicate_zero [simp]: "dot (replicate n 0) x = 0"
proof (induction n arbitrary: x)
  case 0
  show ?case by simp
next
  case (Suc n)
  then show ?case by (cases x) simp_all
qed

lemma mkvc_zeros2: "mkvc (Arr2 (replicate n (0, 0))) = replicate (n + n) 0"
  by (simp add: replicate_add)

lemma getRHSDeriv_3D_pairing:
  assumes fwd: "getRHSDeriv_3D sim m freq v False = Inr dR"
    and adj: "getRHSDeriv_3D sim m freq y True = Inr dRT"
    and contract: "\<forall>src. first_source (survey sim) freq = Inr src \<longrightarrow>
        dot y (mkvc (S_eDeriv src m v False)) = dot (mkvc (S_eDeriv src m y True)) v"
  shows "dot y (mkvc dR) = dot (mkvc dRT) v"
proof -
  from fwd obtain src where src: "first_source (survey sim) freq = Inr src"
    and dR: "dR = nd_scale (- \<i> * complex_of_real (omega freq)) (S_eDeriv src m v False)"
    by (auto simp: getRHSDeriv_3D_def bindE_eq_Inr)
  from adj src have dRT: "dRT = nd_scale (- \<i> * complex_of_real (omega freq)) (S_eDeriv src m y True)"
    by (auto simp: getRHSDeriv_3D_def)
  show ?thesis
    unfolding dR dRT using contract src
    by (simp only: mkvc_nd_scale dot_scale_left dot_scale_right)
qed

lemma getADeriv_3D_forward_Arr2:
  "getADeriv_3D sim m freq u v False = Inr dA \<Longrightarrow> \<exists>rows. dA = Arr2 rows"
  by (auto simp: getADeriv_3D_def bindE_eq_Inr hstack2_def split: if_splits)

lemma nd_neg_Arr2: "nd_neg (Arr2 rows) = Arr2 (map (\<lambda>(a, b). (- a, - b)) rows)"
  by simp

lemma source_pairing:
  assumes var: "variant sim = Simulation3DPrimarySecondary"
    and jv: "Jvec_src sim st m v f nF freq src = Inr blocks"
    and jt: "Jtvec_src sim st f nF freq src w = Inr (t, rest)"
    and task: "Jtvec_task sim m t = Inr r"
    and lenv: "length v = length m"
    and enough: "sum_list (map rx_nD (receiver_list src)) \<le> length w"
    and sym: "\<forall>h. get_Ainv_slot st nF = Inr (Some h) \<longrightarrow>
        (\<forall>i<s_size h. \<forall>j<s_size h. s_inv h i j = s_inv h j i)"
    and rxc: "\<forall>rx\<in>set (receiver_list src). \<forall>x. length x = 2 * nE sim \<longrightarrow>
        length (evalDeriv rx f x) = rx_nD rx
        \<and> (\<forall>y. length y = rx_nD rx \<longrightarrow>
              dot y (evalDeriv rx f x) = (if component rx = ''imag'' then - 1 else 1)
                * Re (dot (mkvc (evalDeriv_adjoint rx f y)) x))"
    and srcc: "\<forall>s v' y. first_source (survey sim) freq = Inr s \<and> length v' = length m
        \<and> length y = 2 * nE sim \<longrightarrow>
        dot y (mkvc (S_eDeriv s m v' False)) = dot (mkvc (S_eDeriv s m y True)) v'"
  shows "dot w (concat blocks @ T) = dot r v + dot rest T
    \<and> length rest = length w - sum_list (map rx_nD (receiver_list src))"
proof -
  let ?v = "map complex_of_real v"
  from jv obtain u dA dR slot X du where u: "fields_get f src = Inr u"
    and dA: "getADeriv sim m freq u ?v False = Inr dA"
    and dR: "getRHSDeriv sim m freq ?v False = Inr dR"
    and slot: "get_Ainv_slot st nF = Inr slot"
    and X: "nd_add (nd_neg dA) dR = Inr X"
    and du: "slot_mul slot X = Inr du"
    and blocks: "blocks = map (\<lambda>rx. evalDeriv rx f (mkvc du)) (receiver_list src)"
    by (auto simp: Jvec_src_def Jvec_du_dm_v_def bindE_eq_Inr)
  from jt u slot obtain PTv Y where
    loop: "Jtvec_rx_loop f (receiver_list src) w (zeros2 (nE sim)) = Inr (PTv, rest)"
    and Y: "slot_mul slot PTv = Inr Y" and t: "t = (freq, u, mkvc Y)"
    by (auto simp: Jtvec_src_def Jtvec_dA_duIT_def bindE_eq_Inr)
  from Y obtain h where h: "slot = Some h" and Yh: "solver_mul h PTv = Inr Y"
    by (cases slot) (auto simp: slot_mul_def)
  from du h have duh: "solver_mul h X = Inr du" by (simp add: slot_mul_def)
  have symh: "\<forall>i<s_size h. \<forall>j<s_size h. s_inv h i j = s_inv h j i"
    using sym slot h by simp
  from Jtvec_rx_loop_shape [of f "receiver_list src" w "replicate (nE sim) (0, 0)" PTv rest] loop
  obtain P where P: "PTv = Arr2 P" and lP: "length P = nE sim" by (auto simp: zeros2_def)
  from solver_mul_Arr2_Inr [OF Yh [unfolded P]] obtain a0 a1 where
    size: "nE sim = s_size h" and Yz: "Y = Arr2 (zip a0 a1)"
    and la: "length a0 = s_size h" "length a1 = s_size h" using lP by auto
  have ly: "length (mkvc Y) = 2 * nE sim" using Yz la size by simp
  from dA var have "getADeriv_3D sim m freq u ?v False = Inr dA"
    by (simp add: getADeriv_def)
  from getADeriv_3D_forward_Arr2 [OF this] obtain rows where rows: "dA = Arr2 rows" by blast
  from X rows obtain xs where xs: "X = Arr2 xs"
    using nd_add_Arr2_shape [of "map (\<lambda>(a, b). (- a, - b)) rows" dR X] by auto
  from solver_mul_Arr2_Inr [OF duh [unfolded xs]] obtain b0 b1 where
    duz: "du = Arr2 (zip b0 b1)" and lb: "length b0 = s_size h" "length b1 = s_size h" by blast
  have lx: "length (mkvc du) = 2 * nE sim" using duz lb size by simp
  have rxc': "\<forall>rx\<in>set (receiver_list src). length (evalDeriv rx f (mkvc du)) = rx_nD rx
        \<and> (\<forall>y. length y = rx_nD rx \<longrightarrow>
              dot y (evalDeriv rx f (mkvc du)) = (if component rx = ''imag'' then - 1 else 1)
                * Re (dot (mkvc (evalDeriv_adjoint rx f y)) (mkvc du)))"
    using rxc lx by blast
  from Jtvec_rx_loop_pairing [OF loop [unfolded zeros2_def] enough rxc', of T]
  have rx: "dot w (concat blocks @ T) = Re (dot (mkvc PTv) (mkvc du)) + dot rest T"
    and lrest: "length rest = length w - sum_list (map rx_nD (receiver_list src))"
    by (simp_all add: blocks mkvc_zeros2 del: mkvc.simps)
  have s1: "dot (mkvc PTv) (mkvc du) = dot (mkvc Y) (mkvc X)"
    using solver_mul_pairing [OF symh Yh [unfolded P] duh [unfolded xs]] by (simp only: P xs)
  from mkvc_nd_add [OF X]
  have s2: "dot (mkvc Y) (mkvc X) = - dot (mkvc Y) (mkvc dA) + dot (mkvc Y) (mkvc dR)"
    by (simp only: dot_add_right mkvc_nd_neg dot_uminus_right)
  from task t obtain dAT dRT du_dmT where
    dAT: "getADeriv sim m freq u (mkvc Y) True = Inr dAT"
    and dRT: "getRHSDeriv sim m freq (mkvc Y) True = Inr dRT"
    and dmT: "nd_add (nd_neg dAT) dRT = Inr du_dmT"
    and r: "real_part du_dmT = Inr r"
    by (auto simp: Jtvec_task_def bindE_eq_Inr)
  have s3: "dot (mkvc Y) (mkvc dA) = dot (mkvc dAT) ?v"
    using getADeriv_pairing [OF dA dAT] .
  have c: "\<forall>s. first_source (survey sim) freq = Inr s \<longrightarrow>
        dot (mkvc Y) (mkvc (S_eDeriv s m ?v False)) = dot (mkvc (S_eDeriv s m (mkvc Y) True)) ?v"
    using srcc lenv ly by simp
  have s4: "dot (mkvc Y) (mkvc dR) = dot (mkvc dRT) ?v"
    using getRHSDeriv_3D_pairing [OF _ _ c] dR dRT var by (simp add: getRHSDeriv_def)
  from mkvc_nd_add [OF dmT]
  have s5: "dot (mkvc du_dmT) ?v = - dot (mkvc dAT) ?v + dot (mkvc dRT) ?v"
    by (simp only: dot_add_left mkvc_nd_neg dot_uminus_left)
  from r obtain z where z: "du_dmT = Vec z" and rz: "r = map Re z"
    by (cases du_dmT) auto
  have "Re (dot (mkvc PTv) (mkvc du)) = Re (dot (mkvc du_dmT) ?v)"
    using s1 s2 s3 s4 s5 by simp
  also have "\<dots> = dot r v" by (simp add: z rz Re_dot_of_real)
  finally show ?thesis using rx lrest by simp
qed

lemma mapE_Cons_Inr:
  "mapE g (x # xs) = Inr ys \<longleftrightarrow> (\<exists>y ys'. g x = Inr y \<and> mapE g xs = Inr ys' \<and> ys = y # ys')"
  by (auto simp: bindE_eq_Inr)

lemma mapE_append_Inr:
  "mapE g (xs @ zs) = Inr ys \<longleftrightarrow>
     (\<exists>r1 r2. mapE g xs = Inr r1 \<and> mapE g zs = Inr r2 \<and> ys = r1 @ r2)"
proof (induction xs arbitrary: ys)
  case Nil
  show ?case by auto
next
  case (Cons x xs)
  show ?case
    by (simp only: append_Cons mapE_Cons_Inr Cons.IH) auto
qed

lemma source_loop_pairing:
  assumes var: "variant sim = Simulation3DPrimarySecondary"
    and jv: "mapE (Jvec_src sim st m v f nF freq) srcs = Inr bss"
    and jt: "Jtvec_src_loop sim st f nF freq srcs w = Inr (ts, rest)"
    and tasks: "mapE (Jtvec_task sim m) ts = Inr rs"
    and lenv: "length v = length m"
    and enough: "sum_list (map rx_nD (concat (map receiver_list srcs))) \<le> length w"
    and sym: "\<forall>h. get_Ainv_slot st nF = Inr (Some h) \<longrightarrow>
        (\<forall>i<s_size h. \<forall>j<s_size h. s_inv h i j = s_inv h j i)"
    and rxc: "\<forall>rx\<in>set (concat (map receiver_list srcs)). \<forall>x. length x = 2 * nE sim \<longrightarrow>
        length (evalDeriv rx f x) = rx_nD rx
        \<and> (\<forall>y. length y = rx_nD rx \<longrightarrow>
              dot y (evalDeriv rx f x) = (if component rx = ''imag'' then - 1 else 1)
                * Re (dot (mkvc (evalDeriv_adjoint rx f y)) x))"
    and srcc: "\<forall>s v' y. first_source (survey sim) freq = Inr s \<and> length v' = length m
        \<and> length y = 2 * nE sim \<longrightarrow>
        dot y (mkvc (S_eDeriv s m v' False)) = dot (mkvc (S_eDeriv s m y True)) v'"
  shows "dot w (concat (concat bss) @ T) = sum_list (map (\<lambda>r. dot r v) rs) + dot rest T
    \<and> length rest = length w - sum_list (map rx_nD (concat (map receiver_list srcs)))"
  using jv jt tasks enough rxc
proof (induction srcs arbitrary: bss w ts rs)
  case Nil
  then show ?case by auto
next
  case (Cons src srcs)
  from Cons.prems(1) obtain blocks bss' where b: "Jvec_src sim st m v f nF freq src = Inr blocks"
    and bs: "mapE (Jvec_src sim st m v f nF freq) srcs = Inr bss'" and bss: "bss = blocks # bss'"
    by (auto simp: bindE_eq_Inr)
  from Cons.prems(2) obtain t w' ts' where t: "Jtvec_src sim st f nF freq src w = Inr (t, w')"
    and l: "Jtvec_src_loop sim st f nF freq srcs w' = Inr (ts', rest)" and ts: "ts = t # ts'"
    by (auto simp: bindE_eq_Inr)
  from Cons.prems(3) ts obtain r rs' where r: "Jtvec_task sim m t = Inr r"
    and rs': "mapE (Jtvec_task sim m) ts' = Inr rs'" and rs: "rs = r # rs'"
    by (auto simp: bindE_eq_Inr)
  have e1: "sum_list (map rx_nD (receiver_list src)) \<le> length w" using Cons.prems(4) by simp
  have c1: "\<forall>rx\<in>set (receiver_list src). \<forall>x. length x = 2 * nE sim \<longrightarrow>
        length (evalDeriv rx f x) = rx_nD rx
        \<and> (\<forall>y. length y = rx_nD rx \<longrightarrow>
              dot y (evalDeriv rx f x) = (if component rx = ''imag'' then - 1 else 1)
                * Re (dot (mkvc (evalDeriv_adjoint rx f y)) x))"
    using Cons.prems(5) by simp
  from source_pairing [OF var b t r lenv e1 sym c1 srcc, of "concat (concat bss') @ T"]
  have s1: "dot w (concat blocks @ concat (concat bss') @ T) = dot r v + dot w' (concat (concat bss') @ T)"
    and lw': "length w' = length w - sum_list (map rx_nD (receiver_list src))" by simp_all
  have e2: "sum_list (map rx_nD (concat (map receiver_list srcs))) \<le> length w'"
    using Cons.prems(4) lw' by simp
  have c2: "\<forall>rx\<in>set (concat (map receiver_list srcs)). \<forall>x. length x = 2 * nE sim \<longrightarrow>
        length (evalDeriv rx f x) = rx_nD rx
        \<and> (\<forall>y. length y = rx_nD rx \<longrightarrow>
              dot y (evalDeriv rx f x) = (if component rx = ''imag'' then - 1 else 1)
                * Re (dot (mkvc (evalDeriv_adjoint rx f y)) x))"
    using Cons.prems(5) by simp
  from Cons.IH [OF bs l rs' e2 c2]
  have ih: "dot w' (concat (concat bss') @ T) = sum_list (map (\<lambda>r. dot r v) rs') + dot rest T"
    and lr: "length rest = length w' - sum_list (map rx_nD (concat (map receiver_list srcs)))"
    by simp_all
  have "dot w (concat (concat bss) @ T) = sum_list (map (\<lambda>r. dot r v) rs) + dot rest T"
    using s1 ih by (simp add: bss rs)
  moreover have "length rest = length w - sum_list (map rx_nD (concat (map receiver_list (src # srcs))))"
    using lr lw' by simp
  ultimately show ?case by blast
qed

lemma freq_loop_pairing:
  assumes var: "variant sim = Simulation3DPrimarySecondary"
    and jv: "mapE (Jvec_freq sim st m v f) nfs = Inr bs"
    and jt: "Jtvec_freq_loop sim st f nfs w = Inr (ts, rest)"
    and tasks: "mapE (Jtvec_task sim m) ts = Inr rs"
    and lenv: "length v = length m"
    and enough: "sum_list (map rx_nD (concat (map (\<lambda>p. concat (map receiver_list
        (get_sources_by_frequency (survey sim) (snd p)))) nfs))) \<le> length w"
    and sym: "\<forall>nF h. get_Ainv_slot st nF = Inr (Some h) \<longrightarrow>
        (\<forall>i<s_size h. \<forall>j<s_size h. s_inv h i j = s_inv h j i)"
    and rxc: "\<forall>rx\<in>set (concat (map (\<lambda>p. concat (map receiver_list
        (get_sources_by_frequency (survey sim) (snd p)))) nfs)). \<forall>x. length x = 2 * nE sim \<longrightarrow>
        length (evalDeriv rx f x) = rx_nD rx
        \<and> (\<forall>y. length y = rx_nD rx \<longrightarrow>
              dot y (evalDeriv rx f x) = (if component rx = ''imag'' then - 1 else 1)
                * Re (dot (mkvc (evalDeriv_adjoint rx f y)) x))"
    and srcc: "\<forall>freq s v' y. first_source (survey sim) freq = Inr s \<and> length v' = length m
        \<and> length y = 2 * nE sim \<longrightarrow>
        dot y (mkvc (S_eDeriv s m v' False)) = dot (mkvc (S_eDeriv s m y True)) v'"
  shows "dot w (concat (concat bs) @ T) = sum_list (map (\<lambda>r. dot r v) rs) + dot rest T"
  using jv jt tasks enough rxc
proof (induction nfs arbitrary: bs w ts rs)
  case Nil
  then show ?case by auto
next
  case (Cons p nfs)
  obtain nF freq where p: "p = (nF, freq)" by (cases p)
  let ?srcs = "get_sources_by_frequency (survey sim) freq"
  from Cons.prems(1) obtain b0 bs' where b0: "Jvec_freq sim st m v f p = Inr b0"
    and bs': "mapE (Jvec_freq sim st m v f) nfs = Inr bs'" and bs0: "bs = b0 # bs'"
    unfolding mapE_Cons_Inr by blast
  from b0 obtain bss where
    b: "mapE (Jvec_src sim st m v f nF freq) ?srcs = Inr bss" and b0': "b0 = concat bss"
    by (auto simp: bindE_eq_Inr Jvec_freq_def p)
  have bs: "bs = concat bss # bs'" using bs0 b0' by simp
  from Cons.prems(2) obtain ts1 w' ts2 where
    t: "Jtvec_src_loop sim st f nF freq ?srcs w = Inr (ts1, w')"
    and l: "Jtvec_freq_loop sim st f nfs w' = Inr (ts2, rest)" and ts: "ts = ts1 @ ts2"
    by (auto simp: bindE_eq_Inr p)
  from Cons.prems(3) ts obtain rs1 rs2 where r1: "mapE (Jtvec_task sim m) ts1 = Inr rs1"
    and r2: "mapE (Jtvec_task sim m) ts2 = Inr rs2" and rs: "rs = rs1 @ rs2"
    by (auto simp: mapE_append_Inr)
  have e1: "sum_list (map rx_nD (concat (map receiver_list ?srcs))) \<le> length w"
    using Cons.prems(4) by (simp add: p)
  have c1: "\<forall>rx\<in>set (concat (map receiver_list ?srcs)). \<forall>x. length x = 2 * nE sim \<longrightarrow>
        length (evalDeriv rx f x) = rx_nD rx
        \<and> (\<forall>y. length y = rx_nD rx \<longrightarrow>
              dot y (evalDeriv rx f x) = (if component rx = ''imag'' then - 1 else 1)
                * Re (dot (mkvc (evalDeriv_adjoint rx f y)) x))"
    using Cons.prems(5) by (simp add: p)
  have sym1: "\<forall>h. get_Ainv_slot st nF = Inr (Some h) \<longrightarrow>
        (\<forall>i<s_size h. \<forall>j<s_size h. s_inv h i j = s_inv h j i)"
    using sym by blast
  have srcc1: "\<forall>s v' y. first_source (survey sim) freq = Inr s \<and> length v' = length m
        \<and> length y = 2 * nE sim \<longrightarrow>
        dot y (mkvc (S_eDeriv s m v' False)) = dot (mkvc (S_eDeriv s m y True)) v'"
    using srcc by blast
  from source_loop_pairing [OF var b t r1 lenv e1 sym1 c1 srcc1, of "concat (concat bs') @ T"]
  have s1: "dot w (concat (concat bss) @ concat (concat bs') @ T)
      = sum_list (map (\<lambda>r. dot r v) rs1) + dot w' (concat (concat bs') @ T)"
    and lw': "length w' = length w - sum_list (map rx_nD (concat (map receiver_list ?srcs)))"
    by simp_all
  have e2: "sum_list (map rx_nD (concat (map (\<lambda>p. concat (map receiver_list
        (get_sources_by_frequency (survey sim) (snd p)))) nfs))) \<le> length w'"
    using Cons.prems(4) lw' by (simp add: p)
  have c2: "\<forall>rx\<in>set (concat (map (\<lambda>p. concat (map receiver_list
        (get_sources_by_frequency (survey sim) (snd p)))) nfs)). \<forall>x. length x = 2 * nE sim \<longrightarrow>
        length (evalDeriv rx f x) = rx_nD rx
        \<and> (\<forall>y. length y = rx_nD rx \<longrightarrow>
              dot y (evalDeriv rx f x) = (if component rx = ''imag'' then - 1 else 1)
                * Re (dot (mkvc (evalDeriv_adjoint rx f y)) x))"
    using Cons.prems(5) by simp
  from Cons.IH [OF bs' l r2 e2 c2]
  have ih: "dot w' (concat (concat bs') @ T) = sum_list (map (\<lambda>r. dot r v) rs2) + dot rest T" .
  show ?case using s1 ih by (simp add: bs rs)
qed

lemma Jtvec_compute_sum:
  assumes "Jtvec_compute sim m ts acc = Inr Jtv"
  shows "\<exists>rs. mapE (Jtvec_task sim m) ts = Inr rs
      \<and> dot Jtv v = dot acc v + sum_list (map (\<lambda>r. dot r v) rs)"
  using assms
proof (induction ts arbitrary: acc)
  case Nil
  then show ?case by simp
next
  case (Cons t ts)
  from Cons.prems obtain r acc' where r: "Jtvec_task sim m t = Inr r"
    and a: "vec_add acc r = Inr acc'" and rest: "Jtvec_compute sim m ts acc' = Inr Jtv"
    by (auto simp: bindE_eq_Inr)
  from a have acc': "acc' = map2 (+) acc r" and len: "length acc = length r"
    by (auto simp: vec_add_def split: if_splits)
  from Cons.IH [OF rest] obtain rs where rs: "mapE (Jtvec_task sim m) ts = Inr rs"
    and d: "dot Jtv v = dot acc' v + sum_list (map (\<lambda>r. dot r v) rs)" by blast
  have "dot acc' v = dot acc v + dot r v" unfolding acc' using len by (rule dot_add_left)
  with d have "dot Jtv v = dot acc v + sum_list (map (\<lambda>r. dot r v) (r # rs))" by simp
  moreover have "mapE (Jtvec_task sim m) (t # ts) = Inr (r # rs)" using r rs by simp
  ultimately show ?case by blast
qed

lemma map_snd_enumerate: "map (\<lambda>p. g (snd p)) (enumerate n xs) = map g xs"
  by (induction xs arbitrary: n) simp_all

lemma run_pairing:
  assumes var: "variant sim = Simulation3DPrimarySecondary"
    and lenv: "length v = length m"
    and sym: "\<forall>nF h. get_Ainv_slot st nF = Inr (Some h) \<longrightarrow>
        (\<forall>i<s_size h. \<forall>j<s_size h. s_inv h i j = s_inv h j i)"
    and rxc: "\<forall>rx\<in>set (survey_receivers (survey sim)). \<forall>x. length x = 2 * nE sim \<longrightarrow>
        length (evalDeriv rx f x) = rx_nD rx
        \<and> (\<forall>y. length y = rx_nD rx \<longrightarrow>
              dot y (evalDeriv rx f x) = (if component rx = ''imag'' then - 1 else 1)
                * Re (dot (mkvc (evalDeriv_adjoint rx f y)) x))"
    and srcc: "\<forall>freq s v' y. first_source (survey sim) freq = Inr s \<and> length v' = length m
        \<and> length y = 2 * nE sim \<longrightarrow>
        dot y (mkvc (S_eDeriv s m v' False)) = dot (mkvc (S_eDeriv s m y True)) v'"
    and jv: "Jvec_run sim st m v f = Inr Jv"
    and jt: "Jtvec_run sim st m w f = Inr Jtv"
  shows "dot w Jv = dot Jtv v"
proof -
  let ?nfs = "enumerate 0 (frequencies (survey sim))"
  let ?all = "concat (map (\<lambda>p. concat (map receiver_list
        (get_sources_by_frequency (survey sim) (snd p)))) ?nfs)"
  have all: "?all = survey_receivers (survey sim)"
    unfolding survey_receivers_def
    by (rule arg_cong [where f = concat], rule map_snd_enumerate)
  from jv obtain bs where bs: "mapE (Jvec_freq sim st m v f) ?nfs = Inr bs"
    and Jv: "Jv = concat (concat bs)"
    by (auto simp: Jvec_run_def bindE_eq_Inr Let_def split: if_splits)
  from jt obtain ts rest where lw: "length w = nD (survey sim)"
    and loop: "Jtvec_freq_loop sim st f ?nfs w = Inr (ts, rest)"
    and comp: "Jtvec_compute sim m ts (replicate (length m) 0) = Inr Jtv"
    by (auto simp: Jtvec_run_def Data_def bindE_eq_Inr split: if_splits)
  from Jtvec_compute_sum [OF comp, of v] obtain rs where
    rs: "mapE (Jtvec_task sim m) ts = Inr rs"
    and d: "dot Jtv v = sum_list (map (\<lambda>r. dot r v) rs)" by auto
  have enough: "sum_list (map rx_nD ?all) \<le> length w"
    using lw by (simp only: all nD_def)
  have rxc': "\<forall>rx\<in>set ?all. \<forall>x. length x = 2 * nE sim \<longrightarrow>
        length (evalDeriv rx f x) = rx_nD rx
        \<and> (\<forall>y. length y = rx_nD rx \<longrightarrow>
              dot y (evalDeriv rx f x) = (if component rx = ''imag'' then - 1 else 1)
                * Re (dot (mkvc (evalDeriv_adjoint rx f y)) x))"
    using rxc by (simp only: all)
  from freq_loop_pairing [OF var bs loop rs lenv enough sym rxc' srcc, of "[]"]
  have "dot w (concat (concat bs)) = sum_list (map (\<lambda>r. dot r v) rs)" by simp
  with d Jv show ?thesis by simp
qed

lemma get_Ainv_slot_cong: "Ainv st = Ainv st' \<Longrightarrow> get_Ainv_slot st = get_Ainv_slot st'"
  by (intro ext) (simp add: get_Ainv_slot_def)

lemma Jvec_run_cong:
  assumes "Ainv st = Ainv st'"
  shows "Jvec_run sim st m v f = Jvec_run sim st' m v f"
proof -
  have "Jvec_src sim st = Jvec_src sim st'"
    by (intro ext) (simp add: Jvec_src_def Jvec_du_dm_v_def get_Ainv_slot_cong [OF assms])
  then have "Jvec_freq sim st = Jvec_freq sim st'"
    by (intro ext) (simp add: Jvec_freq_def)
  then show ?thesis by (simp add: Jvec_run_def)
qed

lemma Jtvec_run_cong:
  assumes "Ainv st = Ainv st'"
  shows "Jtvec_run sim st m v f = Jtvec_run sim st' m v f"
proof -
  have s: "Jtvec_src sim st = Jtvec_src sim st'"
    by (intro ext) (simp add: Jtvec_src_def Jtvec_dA_duIT_def get_Ainv_slot_cong [OF assms])
  have l: "Jtvec_src_loop sim st f nF freq srcs w = Jtvec_src_loop sim st' f nF freq srcs w"
    for nF freq srcs w
    by (induction srcs arbitrary: w) (simp_all add: s)
  have "Jtvec_freq_loop sim st f nfs w = Jtvec_freq_loop sim st' f nfs w" for nfs w
    by (induction nfs arbitrary: w) (auto simp: l)
  then show ?thesis by (simp add: Jtvec_run_def)
qed

lemma fields_3D_any_state:
  "fst (fields_3D sim st (Some m)) = fst (fields_3D sim st' (Some m))
   \<and> Ainv (snd (fields_3D sim st (Some m))) = Ainv (snd (fields_3D sim st' (Some m)))"
  using fields_3D_loop_indep [of
      "(release_Ainv sim (set_model (Some m) st))\<lparr>Ainv := Some (replicate (num_frequencies (survey sim)) None)\<rparr>"
      "(release_Ainv sim (set_model (Some m) st'))\<lparr>Ainv := Some (replicate (num_frequencies (survey sim)) None)\<rparr>"
      sim "enumerate 0 (frequencies (survey sim))" "\<lambda>_. None"]
  by (simp add: fields_3D_def Let_def set_model_def)

text \<open>
  C1. Adjoint consistency of \<^verbatim>\<open>Jvec\<close> and \<^verbatim>\<open>Jtvec\<close> of the 3-D simulation, in exact
  arithmetic. Let \<open>f\<close> and the cache of the state \<open>st\<close> be what a forward solve
  \<^verbatim>\<open>fields(m)\<close> has returned and left. The collaborators keep their contracts: each
  cached factorization acts as a symmetric operator, as the inverse of the symmetric
  system matrix does; each receiver returns \<open>rx_nD\<close> data, and its adjoint projection is
  the transpose of its projection with respect to the real part of the unconjugated
  product, up to the sign that \<^verbatim>\<open>Jtvec\<close> applies to an \<^verbatim>\<open>imag\<close> receiver; the adjoint
  derivative of the source term is the transpose of its derivative. Then whenever
  \<^verbatim>\<open>Jvec(m, v, f)\<close> and \<^verbatim>\<open>Jtvec(m, w, f)\<close> return, for \<open>v\<close> of the length of the model,
  \<open>\<langle>w, Jv\<rangle> = \<langle>J\<^sup>Tw, v\<rangle>\<close>; and the same holds of \<^verbatim>\<open>Jvec(m, v)\<close> and \<^verbatim>\<open>Jtvec(m, w)\<close>,
  which run the forward solve themselves, whatever the simulation did before.
\<close>

theorem adjoint_consistency:
  assumes var: "variant sim = Simulation3DPrimarySecondary"
    and fwd: "fields sim st0 (Some m) = (Inr f, st)"
    and lenv: "length v = length m"
    and sym: "\<forall>nF h. get_Ainv_slot st nF = Inr (Some h) \<longrightarrow>
        (\<forall>i<s_size h. \<forall>j<s_size h. s_inv h i j = s_inv h j i)"
    and rxc: "\<forall>rx\<in>set (survey_receivers (survey sim)). \<forall>x. length x = 2 * nE sim \<longrightarrow>
        length (evalDeriv rx f x) = rx_nD rx
        \<and> (\<forall>y. length y = rx_nD rx \<longrightarrow>
              dot y (evalDeriv rx f x) = (if component rx = ''imag'' then - 1 else 1)
                * Re (dot (mkvc (evalDeriv_adjoint rx f y)) x))"
    and srcc: "\<forall>freq s v' y. first_source (survey sim) freq = Inr s \<and> length v' = length m
        \<and> length y = 2 * nE sim \<longrightarrow>
        dot y (mkvc (S_eDeriv s m v' False)) = dot (mkvc (S_eDeriv s m y True)) v'"
  shows "(fst (Jvec sim st m v (Some f)) = Inr Jv \<and> fst (Jtvec sim st m w (Some f)) = Inr Jtv
          \<longrightarrow> dot w Jv = dot Jtv v)
    \<and> (fst (Jvec sim sta m v None) = Inr Jv' \<and> fst (Jtvec sim stb m w None) = Inr Jtv'
          \<longrightarrow> dot w Jv' = dot Jtv' v)"
proof (intro conjI impI)
  assume a: "fst (Jvec sim st m v (Some f)) = Inr Jv \<and> fst (Jtvec sim st m w (Some f)) = Inr Jtv"
  then have jv: "Jvec_run sim st m v f = Inr Jv" and jt: "Jtvec_run sim st m w f = Inr Jtv"
    by (simp_all add: Jvec_def Jtvec_def Let_def Jvec_run_model Jtvec_run_model)
  show "dot w Jv = dot Jtv v"
    by (rule run_pairing [OF var lenv sym rxc srcc jv jt])
next
  assume a: "fst (Jvec sim sta m v None) = Inr Jv' \<and> fst (Jtvec sim stb m w None) = Inr Jtv'"
  have f3: "fields_3D sim st0 (Some m) = (Inr f, st)" using fwd var by (simp add: fields_def)
  have same: "fst (fields_3D sim s (Some m)) = Inr f
      \<and> Ainv (snd (fields_3D sim s (Some m))) = Ainv st" for s
    using fields_3D_any_state [of sim s m st0] f3 by simp
  have run: "fst (Jvec sim s m v None) = Jvec_run sim st m v f
      \<and> fst (Jtvec sim s m w None) = Jtvec_run sim st m w f" for s
  proof -
    obtain s1 where s1: "fields_3D sim s (Some m) = (Inr f, s1)" and c: "Ainv s1 = Ainv st"
      using same [of s] by (cases "fields_3D sim s (Some m)") auto
    show ?thesis
      using Jvec_run_cong [OF c, of sim m v f] Jtvec_run_cong [OF c, of sim m w f]
      by (simp add: Jvec_def Jtvec_def fields_compute_3D [OF var] fields_def var s1 Let_def
          Jvec_run_model Jtvec_run_model)
  qed
  from a run [of sta] run [of stb]
  have jv: "Jvec_run sim st m v f = Inr Jv'" and jt: "Jtvec_run sim st m w f = Inr Jtv'"
    by simp_all
  show "dot w Jv' = dot Jtv' v"
    by (rule run_pairing [OF var lenv sym rxc srcc jv jt])
qed

lemma Jvec_run_ex2: "Jvec_run sim3D_ex st_cached [1] [5] F_ex = Inr [- 5 / 2, - 5]"
  by (simp add: Jvec_run_def Jvec_m_dim_def Jvec_freq_def Jvec_src_def Jvec_du_dm_v_def
      st_cached_def fields_get_def F_ex_def
      getADeriv_def getADeriv_3D_def MeSigmaDeriv_def mat_vec_def row_dot_def hstack2_def
      getRHSDeriv_def getRHSDeriv_3D_def omega_ex get_Ainv_slot_def slot_mul_def
      solver_mul_h_ex
      sim3D_ex_simps survey_ex_simps src_ex_simps rx_ex_simps enumerate_eq_zip Let_def
      del: solver_mul.simps)

lemma Jtvec_src_ex2:
  "Jtvec_src sim3D_ex st_cached F_ex 0 freq_ex src_ex [2, 3]
     = Inr ((freq_ex, Arr2 [((- 1 - \<i>) / 2, (1 - \<i>) / 2)], [1 - \<i>, (- 3 - 3 * \<i>) / 2]), [])"
  by (simp add: Jtvec_src_def Jtvec_rx_def Jtvec_dA_duIT_def fields_get_def F_ex_def
      src_ex_simps rx_ex_simps sim3D_ex_simps zeros2_def st_cached_def get_Ainv_slot_def
      slot_mul_def solver_mul_h_ex complex_eq_iff del: solver_mul.simps)

lemma Jtvec_task_ex2:
  "Jtvec_task sim3D_ex [1]
      (freq_ex, Arr2 [((- 1 - \<i>) / 2, (1 - \<i>) / 2)], [1 - \<i>, (- 3 - 3 * \<i>) / 2])
     = Inr [- 4]"
  by (simp add: Jtvec_task_def getADeriv_def getADeriv_3D_def MeSigmaDeriv_def mat_vec_def
      row_dot_def mat_T_def getRHSDeriv_def getRHSDeriv_3D_def omega_ex
      sim3D_ex_simps survey_ex_simps src_ex_simps)

lemma Jtvec_run_ex2: "Jtvec_run sim3D_ex st_cached [1] [2, 3] F_ex = Inr [- 4]"
  by (simp add: Jtvec_run_def Data_def sim3D_ex_simps survey_ex_simps enumerate_eq_zip
      Jtvec_src_ex2 Jtvec_task_ex2 vec_add_def)

lemma length_one_cases: "length xs = Suc 0 \<Longrightarrow> \<exists>a. xs = [a]"
  by (cases xs) auto

lemma length_two_cases: "length xs = 2 \<Longrightarrow> \<exists>a b. xs = [a, b]"
  by (cases xs; cases "tl xs") auto

lemma rx_ex_contract:
  "\<forall>rx\<in>set (survey_receivers (survey sim3D_ex)). \<forall>x. length x = 2 * nE sim3D_ex \<longrightarrow>
        length (evalDeriv rx F_ex x) = rx_nD rx
        \<and> (\<forall>y. length y = rx_nD rx \<longrightarrow>
              dot y (evalDeriv rx F_ex x) = (if component rx = ''imag'' then - 1 else 1)
                * Re (dot (mkvc (evalDeriv_adjoint rx F_ex y)) x))"
proof -
  have "dot y (evalDeriv rx_real F_ex x) = Re (dot (mkvc (evalDeriv_adjoint rx_real F_ex y)) x)"
    if "length x = 2" "length y = Suc 0" for x y
  proof -
    from that obtain a b c where "x = [a, b]" "y = [c]"
      using length_two_cases [of x] length_one_cases [of y] by auto
    then show ?thesis by (simp add: rx_ex_simps dot_def)
  qed
  moreover
  have "dot y (evalDeriv rx_imag F_ex x) = - Re (dot (mkvc (evalDeriv_adjoint rx_imag F_ex y)) x)"
    if "length x = 2" "length y = Suc 0" for x y
  proof -
    from that obtain a b c where "x = [a, b]" "y = [c]"
      using length_two_cases [of x] length_one_cases [of y] by auto
    then show ?thesis by (simp add: rx_ex_simps dot_def)
  qed
  ultimately show ?thesis
    by (simp add: sim3D_ex_simps survey_ex_simps rx_ex_simps)
qed

lemma src_ex_contract:
  "\<forall>freq s v' y. first_source (survey sim3D_ex) freq = Inr s \<and> length v' = length [1::real]
        \<and> length y = 2 * nE sim3D_ex \<longrightarrow>
        dot y (mkvc (S_eDeriv s [1] v' False)) = dot (mkvc (S_eDeriv s [1] y True)) v'"
proof (intro allI impI)
  fix freq s and v' y :: cvec
  assume a: "first_source (survey sim3D_ex) freq = Inr s \<and> length v' = length [1::real]
        \<and> length y = 2 * nE sim3D_ex"
  then have s: "s = src_ex"
    by (auto simp: sim3D_ex_simps survey_ex_def first_source_def split: if_splits)
  from a obtain p q r where "y = [p, q]" "v' = [r]"
    using length_two_cases [of y] length_one_cases [of v'] by (auto simp: sim3D_ex_simps)
  then show "dot y (mkvc (S_eDeriv s [1] v' False)) = dot (mkvc (S_eDeriv s [1] y True)) v'"
    by (simp add: s src_ex_simps dot_def algebra_simps)
qed

lemma h_ex_symmetric:
  "\<forall>nF h. get_Ainv_slot st_cached nF = Inr (Some h) \<longrightarrow>
        (\<forall>i<s_size h. \<forall>j<s_size h. s_inv h i j = s_inv h j i)"
  by (auto simp: st_cached_def get_Ainv_slot_def h_ex_def split: if_splits)

text \<open>
  The example simulation with the model \<open>[1]\<close>, \<open>v = [5]\<close> and \<open>w = [2, 3]\<close>: both
  products are \<open>-20\<close>.
\<close>

theorem adjoint_consistency_witness:
  "fields sim3D_ex st_new (Some [1]) = (Inr F_ex, st_cached)
   \<and> fst (Jvec sim3D_ex st_cached [1] [5] (Some F_ex)) = Inr [- 5 / 2, - 5]
   \<and> fst (Jtvec sim3D_ex st_cached [1] [2, 3] (Some F_ex)) = Inr [- 4]
   \<and> fst (Jvec sim3D_ex st_new [1] [5] None) = Inr [- 5 / 2, - 5]
   \<and> fst (Jtvec sim3D_ex st_cached [1] [2, 3] None) = Inr [- 4]
   \<and> dot [2, 3] [- 5 / 2, - 5 :: real] = dot [- 4] [5]
   \<and> dot [2, 3] [- 5 / 2, - 5 :: real] = - 20"
proof -
  have jv: "fst (Jvec sim3D_ex st_cached [1] [5] (Some F_ex)) = Inr [- 5 / 2, - 5]"
    using Jvec_run_ex2 by (simp add: Jvec_def Let_def Jvec_run_model)
  have jt: "fst (Jtvec sim3D_ex st_cached [1] [2, 3] (Some F_ex)) = Inr [- 4]"
    using Jtvec_run_ex2 by (simp add: Jtvec_def Let_def Jtvec_run_model)
  have jv': "fst (Jvec sim3D_ex st_new [1] [5] None) = Inr [- 5 / 2, - 5]"
    using Jvec_run_ex2
    by (simp add: Jvec_def Let_def Jvec_run_model fields_compute_ex fields_ex_new)
  have c: "\<lparr>model = Some [1], Ainv = Some [Some h_ex], trace = t\<rparr> = st_cached\<lparr>trace := t\<rparr>" for t
    by (simp add: st_cached_def)
  have jt': "fst (Jtvec sim3D_ex st_cached [1] [2, 3] None) = Inr [- 4]"
    using Jtvec_run_ex2 Jtvec_run_cong [of "st_cached\<lparr>trace := [Factorize 0, Clean 0, Factorize 0]\<rparr>"
        st_cached sim3D_ex "[1]" "[2, 3]" F_ex]
    by (simp add: Jtvec_def Let_def Jtvec_run_model fields_compute_ex fields_ex_cached c)
  have len: "length [5::real] = length [1::real]" by simp
  from adjoint_consistency [OF sim3D_ex_simps(1) fields_ex_new len h_ex_symmetric
      rx_ex_contract src_ex_contract, of "[- 5 / 2, - 5]" "[2, 3]" "[- 4]" st_new "[- 5 / 2, - 5]"
      st_cached "[- 4]"] jv jt
  have d: "dot [2, 3] [- 5 / 2, - 5 :: real] = dot [- 4] [5]" by blast
  have "dot [2, 3] [- 5 / 2, - 5 :: real] = - 20" by (simp add: dot_def)
  with jv jt jv' jt' d fields_ex_new show ?thesis by blast
qed

end
